theory Spec2Isabelle
  imports Main "HOL-Library.Sublist"
begin


section \<open>Fixed-window rate limiting (api/chat and api/token routes)\<close>

text \<open>
  Both routes keep a process-wide \<open>Map<string, {count, resetTime}>\<close>. The map is
  modelled as a partial function from keys to records, threaded through every call;
  \<open>Date.now()\<close> is the integer parameter \<open>now\<close> (milliseconds).
\<close>

record rate_record =
  count :: int
  resetTime :: int

record rate_result =
  allowed :: bool
  remaining :: int
  resetIn :: int

type_synonym store = "string \<rightharpoonup> rate_record"

definition REQUEST_LIMIT :: int where
  "REQUEST_LIMIT = 10"

definition TOKEN_REQUEST_LIMIT :: int where
  "TOKEN_REQUEST_LIMIT = 20"

definition TIME_WINDOW :: int where
  "TIME_WINDOW = 60 * 1000"

text \<open>\<open>checkRateLimit\<close> of the chat route.\<close>

definition checkRateLimit :: "int \<Rightarrow> string \<Rightarrow> store \<Rightarrow> rate_result \<times> store" where
  "checkRateLimit now key requestCounts =
     (let rec = requestCounts key;
          requestCounts1 =
            (case rec of
               Some r \<Rightarrow> if now > resetTime r then requestCounts(key := None) else requestCounts
             | None \<Rightarrow> requestCounts);
          current = requestCounts1 key
      in case current of
           None \<Rightarrow>
             (\<lparr>allowed = True, remaining = REQUEST_LIMIT - 1, resetIn = TIME_WINDOW\<rparr>,
              requestCounts1(key \<mapsto> \<lparr>count = 1, resetTime = now + TIME_WINDOW\<rparr>))
         | Some c \<Rightarrow>
             if count c \<ge> REQUEST_LIMIT
             then (\<lparr>allowed = False, remaining = 0, resetIn = max 0 (resetTime c - now)\<rparr>,
                   requestCounts1)
             else (\<lparr>allowed = True, remaining = REQUEST_LIMIT - (count c + 1),
                    resetIn = resetTime c - now\<rparr>,
                   requestCounts1(key \<mapsto> c\<lparr>count := count c + 1\<rparr>)))"

text \<open>\<open>checkTokenRateLimit\<close> of the token route.\<close>

definition checkTokenRateLimit :: "int \<Rightarrow> string \<Rightarrow> store \<Rightarrow> rate_result \<times> store" where
  "checkTokenRateLimit now key tokenRequestCounts =
     (let rec = tokenRequestCounts key;
          tokenRequestCounts1 =
            (case rec of
               Some r \<Rightarrow>
                 if now > resetTime r then tokenRequestCounts(key := None) else tokenRequestCounts
             | None \<Rightarrow> tokenRequestCounts);
          current = tokenRequestCounts1 key
      in case current of
           None \<Rightarrow>
             (\<lparr>allowed = True, remaining = TOKEN_REQUEST_LIMIT - 1, resetIn = TIME_WINDOW\<rparr>,
              tokenRequestCounts1(key \<mapsto> \<lparr>count = 1, resetTime = now + TIME_WINDOW\<rparr>))
         | Some c \<Rightarrow>
             if count c \<ge> TOKEN_REQUEST_LIMIT
             then (\<lparr>allowed = False, remaining = 0, resetIn = max 0 (resetTime c - now)\<rparr>,
                   tokenRequestCounts1)
             else (\<lparr>allowed = True, remaining = TOKEN_REQUEST_LIMIT - (count c + 1),
                    resetIn = resetTime c - now\<rparr>,
                   tokenRequestCounts1(key \<mapsto> c\<lparr>count := count c + 1\<rparr>)))"

text \<open>
  The periodic sweep (the \<open>setInterval\<close> callback of either route): every record
  whose reset time lies strictly before \<open>now\<close> is deleted.
\<close>

definition cleanup :: "int \<Rightarrow> store \<Rightarrow> store" where
  "cleanup now requestCounts =
     (\<lambda>key. case requestCounts key of
              None \<Rightarrow> None
            | Some r \<Rightarrow> if now > resetTime r then None else Some r)"

text \<open>
  A run of successive checks for one key at the given clock readings, collecting the
  results in order. The check function is a parameter so that both routes share it.
\<close>

fun run_checks ::
  "(int \<Rightarrow> string \<Rightarrow> store \<Rightarrow> rate_result \<times> store) \<Rightarrow> string \<Rightarrow> int list \<Rightarrow> store
     \<Rightarrow> rate_result list \<times> store" where
  "run_checks check key [] m = ([], m)"
| "run_checks check key (t # ts) m =
     (let (r, m1) = check t key m;
          (rs, m2) = run_checks check key ts m1
      in (r # rs, m2))"

text \<open>
  The two check functions differ only in their ceiling. For the proofs they are both
  shown equal to one function that takes the ceiling as a parameter.
\<close>

definition fixed_window :: "int \<Rightarrow> int \<Rightarrow> string \<Rightarrow> store \<Rightarrow> rate_result \<times> store" where
  "fixed_window limit now key m =
     (case (case m key of
              Some r \<Rightarrow> if now > resetTime r then None else Some r
            | None \<Rightarrow> None) of
        None \<Rightarrow>
          (\<lparr>allowed = True, remaining = limit - 1, resetIn = TIME_WINDOW\<rparr>,
           m(key \<mapsto> \<lparr>count = 1, resetTime = now + TIME_WINDOW\<rparr>))
      | Some c \<Rightarrow>
          if count c \<ge> limit
          then (\<lparr>allowed = False, remaining = 0, resetIn = max 0 (resetTime c - now)\<rparr>, m)
          else (\<lparr>allowed = True, remaining = limit - (count c + 1), resetIn = resetTime c - now\<rparr>,
                m(key \<mapsto> c\<lparr>count := count c + 1\<rparr>)))"

text \<open>
  \<open>within_budget\<close>: no stored record counts more than the ceiling.
  \<open>window_verdict\<close>: what the \<open>i\<close>-th request (from 0) of a window opened at
  \<open>t0\<close>, arriving at \<open>t\<close>, is answered: allowed exactly while \<open>i\<close> is below the
  ceiling; a denial reports no remaining budget and a wait between 0 and the window
  length, which is positive unless the request arrives at the reset instant itself.
\<close>

definition within_budget :: "int \<Rightarrow> store \<Rightarrow> bool" where
  "within_budget limit m = (\<forall>k r. m k = Some r \<longrightarrow> count r \<le> limit)"

definition window_verdict :: "int \<Rightarrow> int \<Rightarrow> nat \<Rightarrow> int \<Rightarrow> rate_result \<Rightarrow> bool" where
  "window_verdict limit t0 i t r =
     (allowed r = (int i < limit)
      \<and> (\<not> allowed r \<longrightarrow>
            remaining r = 0 \<and> 0 \<le> resetIn r \<and> resetIn r \<le> TIME_WINDOW
            \<and> ((0 < resetIn r) = (t < t0 + TIME_WINDOW))))"

section \<open>Strings, numbers and thrown values\<close>

text \<open>
  A JavaScript string is modelled as a \<open>string\<close> whose characters are its code units,
  restricted to code units below 256. The three pictographs that open some client
  messages lie outside that range; they are written as their UTF-8 bytes and no test
  in the code inspects them.
\<close>

text \<open>\<open>s.includes(search)\<close>: \<open>search\<close> occurs in \<open>s\<close> as a contiguous run.\<close>

fun includes_str :: "string \<Rightarrow> string \<Rightarrow> bool" where
  "includes_str [] search = (search = [])"
| "includes_str (c # cs) search = (prefix search (c # cs) \<or> includes_str cs search)"

text \<open>\<open>s.startsWith(p)\<close>.\<close>

definition startsWith :: "string \<Rightarrow> string \<Rightarrow> bool" where
  "startsWith s p = prefix p s"

text \<open>
  The white space and line terminator code units below 256 that \<open>trim()\<close> strips:
  tab, line feed, vertical tab, form feed, carriage return, space, no-break space.
\<close>

definition isWhiteSpace :: "char \<Rightarrow> bool" where
  "isWhiteSpace c = ((of_char c :: nat) \<in> {9, 10, 11, 12, 13, 32, 160})"

definition trim :: "string \<Rightarrow> string" where
  "trim s = rev (dropWhile isWhiteSpace (rev (dropWhile isWhiteSpace s)))"

text \<open>Decimal rendering of numbers inside template literals and \<open>toString()\<close>.\<close>

function string_of_nat :: "nat \<Rightarrow> string" where
  "string_of_nat n =
     (if n < 10 then [''0123456789'' ! n]
      else string_of_nat (n div 10) @ [''0123456789'' ! (n mod 10)])"
  by pat_completeness auto
termination
  by (relation "measure (\<lambda>n. n)") auto

declare string_of_nat.simps [simp del]

definition toString :: "int \<Rightarrow> string" where
  "toString i = (if i < 0 then CHR ''-'' # string_of_nat (nat (- i)) else string_of_nat (nat i))"

text \<open>\<open>Math.ceil(ms / 1000)\<close> on an integer number of milliseconds.\<close>

definition ceilSeconds :: "int \<Rightarrow> int" where
  "ceilSeconds ms = - ((- ms) div 1000)"

text \<open>
  A thrown value is an instance of \<open>Error\<close> carrying its message, or any other value
  (for which \<open>error instanceof Error\<close> is false).
\<close>

datatype thrown = Error string | NotAnError

section \<open>Requests and responses\<close>

text \<open>
  A request carries the two headers the routes read and the outcome of \<open>req.json()\<close>,
  which either throws or yields the parsed body.
\<close>

record 'b request =
  xForwardedFor :: "string option"
  xRealIp :: "string option"
  json :: "thrown + 'b"

text \<open>
  The JSON bodies the routes return. The \<open>timestamp\<close> field of the failure body and
  the \<open>X-RateLimit-Reset\<close> header hold formatted dates and are left out.
\<close>

datatype body =
    RateLimitBody string int
  | QuotaBody string
  | ErrorBody string
  | FailureBody string
  | ChatBody string string string
  | TokenBody string string int string string

record response =
  status :: nat
  body :: body
  headers :: "(string \<times> string) list"

text \<open>\<open>getRateLimitKey\<close> (identical in both routes).\<close>

definition getRateLimitKey :: "'b request \<Rightarrow> string" where
  "getRateLimitKey req =
     (case xForwardedFor req of
        Some forwarded \<Rightarrow>
          if forwarded \<noteq> [] then takeWhile (\<lambda>c. c \<noteq> CHR '','') forwarded
          else (case xRealIp req of
                  Some ip \<Rightarrow> if ip \<noteq> [] then ip else ''unknown''
                | None \<Rightarrow> ''unknown'')
      | None \<Rightarrow>
          (case xRealIp req of
             Some ip \<Rightarrow> if ip \<noteq> [] then ip else ''unknown''
           | None \<Rightarrow> ''unknown''))"

section \<open>The chat route\<close>

text \<open>
  The three flows are external collaborators: each takes its input string and either
  throws or returns its output string. Every invocation is recorded, in order.
\<close>

record flows =
  transcribeUserSpeech :: "string \<Rightarrow> thrown + string"
  generateAIResponse :: "string \<Rightarrow> thrown + string"
  convertTextToSpeech :: "string \<Rightarrow> thrown + string"

datatype call = Transcribe string | Generate string | Synthesize string

text \<open>The test shared by the catch blocks of stages 1 and 2.\<close>

definition isQuotaError :: "thrown \<Rightarrow> bool" where
  "isQuotaError error =
     (case error of
        Error message \<Rightarrow>
          includes_str message ''quota'' \<or> includes_str message ''rate limit''
          \<or> includes_str message ''429''
      | NotAnError \<Rightarrow> False)"

text \<open>
  Stages 1 to 4 of the handler, after validation. \<open>Inl\<close> is an exception leaving
  the stages for the handler's outer \<open>catch\<close>.
\<close>

definition chat_stages :: "flows \<Rightarrow> string \<Rightarrow> int \<Rightarrow> (thrown + response) \<times> call list" where
  "chat_stages ai audioDataUri remaining_left =
     (case transcribeUserSpeech ai audioDataUri of
        Inl error \<Rightarrow>
          (if isQuotaError error
           then Inr \<lparr>status = 429,
                     body = QuotaBody
                       ''AI service quota exceeded. Please try again in a few moments.'',
                     headers = []\<rparr>
           else Inl error,
           [Transcribe audioDataUri])
      | Inr transcription \<Rightarrow>
          if transcription = [] \<or> trim transcription = []
          then (Inr \<lparr>status = 200,
                      body = ChatBody []
                        ''Sorry, I couldn't understand that. Please try again.'' [],
                      headers = []\<rparr>,
                [Transcribe audioDataUri])
          else
            (case generateAIResponse ai transcription of
               Inl error \<Rightarrow>
                 (if isQuotaError error
                  then Inr \<lparr>status = 429,
                            body = QuotaBody ''AI service is busy. Please try again shortly.'',
                            headers = []\<rparr>
                  else Inl error,
                  [Transcribe audioDataUri, Generate transcription])
             | Inr aiTextResponse \<Rightarrow>
                 if aiTextResponse = [] \<or> trim aiTextResponse = []
                 then (Inr \<lparr>status = 200,
                             body = ChatBody transcription
                               ''I'm not sure how to respond to that.'' [],
                             headers = []\<rparr>,
                       [Transcribe audioDataUri, Generate transcription])
                 else
                   (case convertTextToSpeech ai aiTextResponse of
                      Inl error \<Rightarrow>
                        (Inr \<lparr>status = 200,
                               body = ChatBody transcription aiTextResponse [],
                               headers = []\<rparr>,
                         [Transcribe audioDataUri, Generate transcription,
                          Synthesize aiTextResponse])
                    | Inr aiAudioDataUri \<Rightarrow>
                        (Inr \<lparr>status = 200,
                               body = ChatBody transcription aiTextResponse aiAudioDataUri,
                               headers =
                                 [(''X-RateLimit-Limit'', toString REQUEST_LIMIT),
                                  (''X-RateLimit-Remaining'', toString remaining_left)]\<rparr>,
                         [Transcribe audioDataUri, Generate transcription,
                          Synthesize aiTextResponse]))))"

text \<open>The outer \<open>catch\<close> of the chat handler.\<close>

definition chat_catch :: "thrown \<Rightarrow> response" where
  "chat_catch error =
     (case error of
        Error errorMessage \<Rightarrow>
          if includes_str errorMessage ''timeout''
          then \<lparr>status = 504, body = FailureBody ''Request timeout. Please try again.'',
                 headers = []\<rparr>
          else if includes_str errorMessage ''network''
          then \<lparr>status = 503, body = FailureBody ''Service temporarily unavailable.'',
                 headers = []\<rparr>
          else if includes_str errorMessage ''quota'' \<or> includes_str errorMessage ''rate limit''
          then \<lparr>status = 429, body = FailureBody ''Too many requests. Please wait a moment.'',
                 headers = []\<rparr>
          else \<lparr>status = 500, body = FailureBody errorMessage, headers = []\<rparr>
      | NotAnError \<Rightarrow>
          \<lparr>status = 500, body = FailureBody ''Internal Server Error'', headers = []\<rparr>)"

text \<open>
  \<open>POST\<close> of the chat route. The body of the request is its \<open>audioDataUri\<close> field,
  \<open>None\<close> when the field is absent. The result is the response, the flows invoked
  and the rate-limit map afterwards.
\<close>

definition POST_chat ::
  "flows \<Rightarrow> int \<Rightarrow> (string option) request \<Rightarrow> store \<Rightarrow> (response \<times> call list) \<times> store" where
  "POST_chat ai now req requestCounts =
     (let rateLimitKey = getRateLimitKey req;
          (limit, requestCounts1) = checkRateLimit now rateLimitKey requestCounts
      in if \<not> allowed limit
         then (let waitSeconds = ceilSeconds (resetIn limit)
               in ((\<lparr>status = 429,
                      body = RateLimitBody
                        (''Rate limit exceeded. Please wait '' @ toString waitSeconds
                           @ '' seconds before trying again.'')
                        waitSeconds,
                      headers =
                        [(''Retry-After'', toString waitSeconds),
                         (''X-RateLimit-Limit'', toString REQUEST_LIMIT),
                         (''X-RateLimit-Remaining'', ''0'')]\<rparr>, []),
                   requestCounts1))
         else
           (case json req of
              Inl error \<Rightarrow> ((chat_catch error, []), requestCounts1)
            | Inr audioDataUri \<Rightarrow>
                (case audioDataUri of
                   None \<Rightarrow>
                     ((\<lparr>status = 400, body = ErrorBody ''Missing audioDataUri'',
                        headers = []\<rparr>, []), requestCounts1)
                 | Some uri \<Rightarrow>
                     if uri = []
                     then ((\<lparr>status = 400, body = ErrorBody ''Missing audioDataUri'',
                             headers = []\<rparr>, []), requestCounts1)
                     else if \<not> startsWith uri ''data:audio/''
                     then ((\<lparr>status = 400, body = ErrorBody ''Invalid audio data format'',
                             headers = []\<rparr>, []), requestCounts1)
                     else
                       (case chat_stages ai uri (remaining limit) of
                          (Inl error, calls) \<Rightarrow> ((chat_catch error, calls), requestCounts1)
                        | (Inr res, calls) \<Rightarrow> ((res, calls), requestCounts1)))))"

section \<open>The token route\<close>

record token_request =
  roomName :: "string option"
  participantName :: "string option"

record environment =
  LIVEKIT_API_KEY :: "string option"
  LIVEKIT_API_SECRET :: "string option"
  NEXT_PUBLIC_LIVEKIT_URL :: "string option"

text \<open>
  What the handler hands to the credential library: the constructor arguments of
  \<open>AccessToken\<close> and the grant added to it. The \<open>createdAt\<close> date of the metadata
  is left out. \<open>toJwt\<close> belongs to the library and is a parameter of the handler; it
  throws or returns the signed token.
\<close>

record video_grant =
  room :: string
  roomJoin :: bool
  canPublish :: bool
  canSubscribe :: bool
  canPublishData :: bool

record access_token =
  apiKey :: string
  apiSecret :: string
  identity :: string
  displayName :: string
  ttl :: string
  metadataRoomName :: string
  grant :: video_grant

text \<open>\<open>/^[a-zA-Z0-9_-]+$/.test(s)\<close>: one or more characters, all from the class.\<close>

definition identChar :: "char \<Rightarrow> bool" where
  "identChar c =
     (let n = (of_char c :: nat)
      in (97 \<le> n \<and> n \<le> 122) \<or> (65 \<le> n \<and> n \<le> 90) \<or> (48 \<le> n \<and> n \<le> 57)
         \<or> c = CHR ''_'' \<or> c = CHR ''-'')"

definition validName :: "string \<Rightarrow> bool" where
  "validName s = (s \<noteq> [] \<and> list_all identChar s)"

text \<open>The outer \<open>catch\<close> of the token handler.\<close>

definition token_catch :: "thrown \<Rightarrow> response" where
  "token_catch error =
     (case error of
        Error errorMessage \<Rightarrow>
          if includes_str errorMessage ''Invalid API key''
          then \<lparr>status = 401, body = FailureBody ''Invalid LiveKit credentials.'',
                 headers = []\<rparr>
          else if includes_str errorMessage ''timeout''
          then \<lparr>status = 504,
                 body = FailureBody ''Token generation timeout. Please try again.'',
                 headers = []\<rparr>
          else \<lparr>status = 500, body = FailureBody errorMessage, headers = []\<rparr>
      | NotAnError \<Rightarrow>
          \<lparr>status = 500, body = FailureBody ''Internal Server Error'', headers = []\<rparr>)"

text \<open>
  \<open>POST\<close> of the token route; the result is the response and the rate-limit map
  afterwards. A body field is \<open>None\<close> when absent and an environment variable is
  \<open>None\<close> when unset; \<open>!x\<close> holds for an absent value and for the empty string.
\<close>

definition POST_token ::
  "environment \<Rightarrow> (access_token \<Rightarrow> thrown + string) \<Rightarrow> int \<Rightarrow> token_request request \<Rightarrow> store
     \<Rightarrow> response \<times> store" where
  "POST_token env toJwt now req tokenRequestCounts =
     (let rateLimitKey = getRateLimitKey req;
          (limit, tokenRequestCounts1) = checkTokenRateLimit now rateLimitKey tokenRequestCounts
      in if \<not> allowed limit
         then (let waitSeconds = ceilSeconds (resetIn limit)
               in (\<lparr>status = 429,
                     body = RateLimitBody
                       (''Too many token requests. Please wait '' @ toString waitSeconds
                          @ '' seconds.'')
                       waitSeconds,
                     headers =
                       [(''Retry-After'', toString waitSeconds),
                        (''X-RateLimit-Limit'', toString TOKEN_REQUEST_LIMIT),
                        (''X-RateLimit-Remaining'', ''0'')]\<rparr>,
                   tokenRequestCounts1))
         else
           (case json req of
              Inl error \<Rightarrow> (token_catch error, tokenRequestCounts1)
            | Inr parsed \<Rightarrow>
                (let missing =
                       \<lparr>status = 400, body = ErrorBody ''Missing roomName or participantName'',
                        headers = []\<rparr>;
                     notConfigured =
                       \<lparr>status = 500,
                        body = ErrorBody
                          ''Server configuration error: LiveKit credentials not set.'',
                        headers = []\<rparr>
                 in case roomName parsed of
                      None \<Rightarrow> (missing, tokenRequestCounts1)
                    | Some rn \<Rightarrow>
                 (case participantName parsed of
                      None \<Rightarrow> (missing, tokenRequestCounts1)
                    | Some pn \<Rightarrow>
                  if rn = [] \<or> pn = [] then (missing, tokenRequestCounts1)
                  else if \<not> validName rn \<or> \<not> validName pn
                  then (\<lparr>status = 400,
                         body = ErrorBody ''Invalid roomName or participantName format. Use only letters, numbers, hyphens, and underscores.'',
                         headers = []\<rparr>, tokenRequestCounts1)
                  else
                 (case LIVEKIT_API_KEY env of
                      None \<Rightarrow> (notConfigured, tokenRequestCounts1)
                    | Some key \<Rightarrow>
                 (case LIVEKIT_API_SECRET env of
                      None \<Rightarrow> (notConfigured, tokenRequestCounts1)
                    | Some secret \<Rightarrow>
                 (case NEXT_PUBLIC_LIVEKIT_URL env of
                      None \<Rightarrow> (notConfigured, tokenRequestCounts1)
                    | Some wsUrl \<Rightarrow>
                  if key = [] \<or> secret = [] \<or> wsUrl = []
                  then (notConfigured, tokenRequestCounts1)
                  else if \<not> startsWith wsUrl ''ws://'' \<and> \<not> startsWith wsUrl ''wss://''
                  then (\<lparr>status = 500,
                         body = ErrorBody ''Invalid LiveKit URL configuration.'',
                         headers = []\<rparr>, tokenRequestCounts1)
                  else
                    (case toJwt
                            \<lparr>apiKey = key, apiSecret = secret, identity = pn,
                             displayName = pn, ttl = ''10m'', metadataRoomName = rn,
                             grant = \<lparr>room = rn, roomJoin = True, canPublish = True,
                                       canSubscribe = True, canPublishData = True\<rparr>\<rparr> of
                       Inl error \<Rightarrow> (token_catch error, tokenRequestCounts1)
                     | Inr token \<Rightarrow>
                         (\<lparr>status = 200,
                           body = TokenBody token wsUrl 600 rn pn,
                           headers =
                             [(''X-RateLimit-Limit'', toString TOKEN_REQUEST_LIMIT),
                              (''X-RateLimit-Remaining'', toString (remaining limit))]\<rparr>,
                          tokenRequestCounts1)))))))))"

section \<open>The client hook: transcript and dispatch with retry\<close>

datatype role = user | assistant

record message =
  msgId :: string
  timestamp :: int
  msgText :: string
  msgRole :: role

text \<open>An error object on the client: its \<open>name\<close> and its \<open>message\<close>.\<close>

datatype client_error = ClientError string string

fun errName :: "client_error \<Rightarrow> string" where
  "errName (ClientError name message) = name"

fun errMessage :: "client_error \<Rightarrow> string" where
  "errMessage (ClientError name message) = message"

text \<open>
  What \<open>fetch('/api/chat')\<close> gives for one dispatch: it throws, or a response with a
  status and a JSON body arrives.
\<close>

datatype fetch_result = FetchThrew client_error | Fetched nat body

text \<open>
  What the hook leaves in the outside world, in order: a request posted with its audio
  data URI, a timer set with its delay in milliseconds, audio handed to playback, and
  a call of the \<open>onError\<close> callback.
\<close>

datatype effect = PostChat string | SetTimeout nat | PlayAudio string | OnError client_error

text \<open>
  The state of the hook that \<open>sendAudioToApi\<close> touches, with the effects so far and
  a counter of the readings taken from the surroundings. The surroundings supply the
  value of every \<open>uuidv4()\<close> and \<open>Date.now()\<close> reading by its number, and the result
  of the fetch of each attempt by its retry count.
\<close>

record client =
  messages :: "message list"
  isThinking :: bool
  lastRequestTime :: int
  effects :: "effect list"
  readings :: nat

record surroundings =
  uuidv4 :: "nat \<Rightarrow> string"
  dateNow :: "nat \<Rightarrow> int"
  fetchChat :: "nat \<Rightarrow> string \<Rightarrow> fetch_result"

definition MAX_RETRIES :: nat where
  "MAX_RETRIES = 2"

definition RETRY_DELAY :: nat where
  "RETRY_DELAY = 3000"

definition HOURGLASS :: string where
  "HOURGLASS = [char_of (0xE2 :: nat), char_of (0x8F :: nat), char_of (0xB3 :: nat)]"

definition CROSS_MARK :: string where
  "CROSS_MARK = [char_of (0xE2 :: nat), char_of (0x9D :: nat), char_of (0x8C :: nat)]"

definition WARNING_SIGN :: string where
  "WARNING_SIGN = [char_of (0xE2 :: nat), char_of (0x9A :: nat), char_of (0xA0 :: nat),
                   char_of (0xEF :: nat), char_of (0xB8 :: nat), char_of (0x8F :: nat)]"

text \<open>\<open>addMessage\<close>: append one message with a fresh id and the current time.\<close>

definition addMessage :: "surroundings \<Rightarrow> string \<Rightarrow> role \<Rightarrow> client \<Rightarrow> client" where
  "addMessage w txt r st =
     st\<lparr>messages := messages st @
           [\<lparr>msgId = uuidv4 w (readings st), timestamp = dateNow w (readings st),
             msgText = txt, msgRole = r\<rparr>],
        readings := Suc (readings st)\<rparr>"

text \<open>The fields the hook reads from a JSON body; a field the body lacks is undefined.\<close>

fun errorOf :: "body \<Rightarrow> string option" where
  "errorOf (RateLimitBody e w) = Some e"
| "errorOf (QuotaBody e) = Some e"
| "errorOf (ErrorBody e) = Some e"
| "errorOf (FailureBody e) = Some e"
| "errorOf (ChatBody t r a) = None"
| "errorOf (TokenBody t u e r p) = None"

fun transcriptionOf :: "body \<Rightarrow> string option" where
  "transcriptionOf (ChatBody t r a) = Some t"
| "transcriptionOf b = None"

fun aiResponseText :: "body \<Rightarrow> string option" where
  "aiResponseText (ChatBody t r a) = Some r"
| "aiResponseText b = None"

fun aiResponseAudio :: "body \<Rightarrow> string option" where
  "aiResponseAudio (ChatBody t r a) = Some a"
| "aiResponseAudio b = None"

text \<open>
  The first half of the \<open>try\<close> block: the fetch and the \<open>!response.ok\<close> branch.
  \<open>Inl\<close> is the error thrown into the \<open>catch\<close>, \<open>Inr\<close> the body of an ok response.
\<close>

definition awaitResponse :: "fetch_result \<Rightarrow> client_error + body" where
  "awaitResponse res =
     (case res of
        FetchThrew e \<Rightarrow> Inl e
      | Fetched code errorData \<Rightarrow>
          if \<not> (200 \<le> code \<and> code \<le> 299)
          then (let errorMessage =
                      (case errorOf errorData of
                         Some e \<Rightarrow> if e \<noteq> [] then e
                                   else ''Failed to get response from chat API''
                       | None \<Rightarrow> ''Failed to get response from chat API'')
                in if includes_str errorMessage ''Quota exceeded''
                      \<or> includes_str errorMessage ''rate limit''
                   then Inl (ClientError ''RateLimitError''
                               ''Rate limit reached. Please wait a moment.'')
                   else Inl (ClientError ''Error'' errorMessage))
          else Inr errorData)"

text \<open>
  The second half of the \<open>try\<close> block, on an ok response: the user message, then the
  assistant message and playback.
\<close>

definition showReply :: "surroundings \<Rightarrow> body \<Rightarrow> client \<Rightarrow> client" where
  "showReply w data st =
     (let st1 = (case transcriptionOf data of
                   Some t \<Rightarrow> if t \<noteq> [] then addMessage w t user st else st
                 | None \<Rightarrow> st)
      in case (aiResponseText data, aiResponseAudio data) of
           (Some txt, Some audio) \<Rightarrow>
             if txt \<noteq> [] \<and> audio \<noteq> []
             then (let st2 = addMessage w txt assistant st1
                   in st2\<lparr>effects := effects st2 @ [PlayAudio audio]\<rparr>)
             else st1
         | _ \<Rightarrow> st1)"

text \<open>
  \<open>sendAudioToApi\<close>. The audio blob is given by the data URI the file reader makes of
  it. A retry scheduled with \<open>setTimeout\<close> is recorded as an effect and then run. The
  \<open>finally\<close> block runs on every path, also when the \<open>catch\<close> returns early.
  Left out: the countdown that \<open>startCooldownTimer\<close> keeps for display, a playback
  that is rejected, and a file reader that fails.
\<close>

function sendAudioToApi :: "surroundings \<Rightarrow> string \<Rightarrow> nat \<Rightarrow> client \<Rightarrow> client" where
  "sendAudioToApi w audioDataUri retryCount st =
     (let st1 = st\<lparr>isThinking := True,
                   lastRequestTime := dateNow w (readings st),
                   effects := effects st @ [PostChat audioDataUri],
                   readings := Suc (readings st)\<rparr>
      in case awaitResponse (fetchChat w retryCount audioDataUri) of
           Inr data \<Rightarrow> (showReply w data st1)\<lparr>isThinking := False\<rparr>
         | Inl error \<Rightarrow>
             if errName error = ''RateLimitError'' \<and> retryCount < MAX_RETRIES
             then (let waitTime = RETRY_DELAY * (retryCount + 1);
                       st2 = addMessage w
                               (HOURGLASS @ '' Rate limit reached. Retrying in ''
                                  @ string_of_nat (waitTime div 1000) @ '' seconds... (''
                                  @ string_of_nat (retryCount + 1) @ ''/''
                                  @ string_of_nat MAX_RETRIES @ '')'')
                               assistant st1;
                       st3 = st2\<lparr>effects := effects st2 @ [SetTimeout waitTime],
                                 isThinking := False\<rparr>
                   in sendAudioToApi w audioDataUri (retryCount + 1) st3)
             else (let st2 =
                         (if errName error = ''RateLimitError''
                          then addMessage w
                                 (WARNING_SIGN
                                    @ '' Too many requests! Please wait 30 seconds and try again.'')
                                 assistant st1
                          else addMessage w (CROSS_MARK @ '' Error: '' @ errMessage error)
                                 assistant st1)
                   in st2\<lparr>effects := effects st2 @ [OnError error], isThinking := False\<rparr>))"
  by pat_completeness auto
termination
  by (relation "measure (\<lambda>(w, audioDataUri, retryCount, st). MAX_RETRIES - retryCount)") auto

declare sendAudioToApi.simps [simp del]

text \<open>
  The client and the chat route together: the fetch of attempt \<open>n\<close> is answered by the
  handler, run at server time \<open>now n\<close> on a request carrying the posted data URI, with
  the rate-limit map the earlier attempts left behind.
\<close>

definition posted :: "string \<Rightarrow> (string option) request" where
  "posted audioDataUri = \<lparr>xForwardedFor = None, xRealIp = None, json = Inr (Some audioDataUri)\<rparr>"

primrec store_before :: "flows \<Rightarrow> (nat \<Rightarrow> int) \<Rightarrow> store \<Rightarrow> string \<Rightarrow> nat \<Rightarrow> store" where
  "store_before ai now requestCounts audioDataUri 0 = requestCounts"
| "store_before ai now requestCounts audioDataUri (Suc n) =
     snd (POST_chat ai (now n) (posted audioDataUri)
            (store_before ai now requestCounts audioDataUri n))"

definition served :: "flows \<Rightarrow> (nat \<Rightarrow> int) \<Rightarrow> store \<Rightarrow> nat \<Rightarrow> string \<Rightarrow> fetch_result" where
  "served ai now requestCounts n audioDataUri =
     (let res = fst (fst (POST_chat ai (now n) (posted audioDataUri)
                            (store_before ai now requestCounts audioDataUri n)))
      in Fetched (status res) (body res))"

section \<open>Sample inputs\<close>

text \<open>
  Concrete requests and scripted flows on which the statements below are run:
  \<open>scripted t g s\<close> answers every transcription with \<open>t\<close>, every generation with
  \<open>g\<close> and every synthesis with \<open>s\<close>.
\<close>

definition sample_uri :: string where
  "sample_uri = ''data:audio/webm;base64,GkXfo59ChoEB''"

definition sample_request :: "(string option) request" where
  "sample_request =
     \<lparr>xForwardedFor = Some ''203.0.113.7, 10.0.0.1'', xRealIp = None,
      json = Inr (Some sample_uri)\<rparr>"

definition scripted :: "thrown + string \<Rightarrow> thrown + string \<Rightarrow> thrown + string \<Rightarrow> flows" where
  "scripted t g s =
     \<lparr>transcribeUserSpeech = (\<lambda>audioDataUri. t),
      generateAIResponse = (\<lambda>transcription. g),
      convertTextToSpeech = (\<lambda>txt. s)\<rparr>"

definition sample_client :: client where
  "sample_client =
     \<lparr>messages = [\<lparr>msgId = ''m-0'', timestamp = 5, msgText = ''Earlier question'',
                   msgRole = user\<rparr>],
      isThinking = False, lastRequestTime = 0, effects = [], readings = 0\<rparr>"

definition sample_surroundings :: "(nat \<Rightarrow> string \<Rightarrow> fetch_result) \<Rightarrow> surroundings" where
  "sample_surroundings fetch =
     \<lparr>uuidv4 = (\<lambda>n. ''id-'' @ string_of_nat n), dateNow = (\<lambda>n. 1000 + int n),
      fetchChat = fetch\<rparr>"

section \<open>The request budget of a window\<close>

lemma checkRateLimit_fixed_window: "checkRateLimit = fixed_window REQUEST_LIMIT"
  by (intro ext) (auto simp: checkRateLimit_def fixed_window_def Let_def split: option.splits)

lemma checkTokenRateLimit_fixed_window: "checkTokenRateLimit = fixed_window TOKEN_REQUEST_LIMIT"
  by (intro ext) (auto simp: checkTokenRateLimit_def fixed_window_def Let_def split: option.splits)

lemma fixed_window_fresh:
  assumes "m key = None \<or> (\<exists>r. m key = Some r \<and> now > resetTime r)"
  shows "fixed_window limit now key m =
           (\<lparr>allowed = True, remaining = limit - 1, resetIn = TIME_WINDOW\<rparr>,
            m(key \<mapsto> \<lparr>count = 1, resetTime = now + TIME_WINDOW\<rparr>))"
  using assms by (auto simp: fixed_window_def)

lemma fixed_window_live:
  assumes "m key = Some \<lparr>count = c, resetTime = R\<rparr>" and "now \<le> R"
  shows "fixed_window limit now key m =
           (if c \<ge> limit
            then (\<lparr>allowed = False, remaining = 0, resetIn = max 0 (R - now)\<rparr>, m)
            else (\<lparr>allowed = True, remaining = limit - (c + 1), resetIn = R - now\<rparr>,
                  m(key \<mapsto> \<lparr>count = c + 1, resetTime = R\<rparr>)))"
  using assms by (simp add: fixed_window_def)

lemma run_checks_length: "length (fst (run_checks check key ts m)) = length ts"
  by (induction ts arbitrary: m) (simp_all add: split_beta)

lemma run_live_step:
  assumes "m key = Some \<lparr>count = c, resetTime = R\<rparr>" and "t \<le> R"
  shows "run_checks (fixed_window limit) key (t # ts) m =
           (if c \<ge> limit
            then (\<lparr>allowed = False, remaining = 0, resetIn = max 0 (R - t)\<rparr>
                    # fst (run_checks (fixed_window limit) key ts m),
                  snd (run_checks (fixed_window limit) key ts m))
            else (\<lparr>allowed = True, remaining = limit - (c + 1), resetIn = R - t\<rparr>
                    # fst (run_checks (fixed_window limit) key ts
                            (m(key \<mapsto> \<lparr>count = c + 1, resetTime = R\<rparr>))),
                  snd (run_checks (fixed_window limit) key ts
                            (m(key \<mapsto> \<lparr>count = c + 1, resetTime = R\<rparr>)))))"
  using assms by (simp add: fixed_window_live split_beta)

lemma run_live_store:
  assumes "m key = Some \<lparr>count = c, resetTime = R\<rparr>" and "c \<le> limit"
      and "\<forall>t\<in>set ts. t \<le> R"
  shows "snd (run_checks (fixed_window limit) key ts m) key
           = Some \<lparr>count = min limit (c + int (length ts)), resetTime = R\<rparr>"
  using assms
proof (induction ts arbitrary: m c)
  case Nil
  then show ?case by simp
next
  case (Cons t ts)
  have t: "t \<le> R" and rest: "\<forall>t\<in>set ts. t \<le> R" using Cons.prems(3) by simp_all
  show ?case
  proof (cases "c \<ge> limit")
    case True
    with Cons.prems(2) have "c = limit" by simp
    with Cons.IH [where m=m and c=c, OF Cons.prems(1) Cons.prems(2) rest] show ?thesis
      by (simp add: run_live_step [where m=m and key=key, OF Cons.prems(1) t] del: run_checks.simps)
  next
    case False
    have ih: "snd (run_checks (fixed_window limit) key ts
                    (m(key \<mapsto> \<lparr>count = c + 1, resetTime = R\<rparr>))) key
                = Some \<lparr>count = min limit (c + 1 + int (length ts)), resetTime = R\<rparr>"
      by (rule Cons.IH) (use False rest in simp_all)
    show ?thesis
      using False
      by (simp add: run_live_step [where m=m and key=key, OF Cons.prems(1) t] ih add.assoc
               del: run_checks.simps)
  qed
qed

lemma run_live_nth:
  assumes "m key = Some \<lparr>count = c, resetTime = R\<rparr>" and "c \<le> limit"
      and "\<forall>t\<in>set ts. t \<le> R" and "i < length ts"
  shows "fst (run_checks (fixed_window limit) key ts m) ! i =
           (if c + int i < limit
            then \<lparr>allowed = True, remaining = limit - (c + int i + 1), resetIn = R - ts ! i\<rparr>
            else \<lparr>allowed = False, remaining = 0, resetIn = max 0 (R - ts ! i)\<rparr>)"
  using assms
proof (induction ts arbitrary: m c i)
  case Nil
  then show ?case by simp
next
  case (Cons t ts)
  have t: "t \<le> R" and rest: "\<forall>t\<in>set ts. t \<le> R" using Cons.prems(3) by simp_all
  show ?case
  proof (cases i)
    case 0
    then show ?thesis
      using Cons.prems(2) by (simp add: run_live_step [where m=m and key=key, OF Cons.prems(1) t] del: run_checks.simps)
  next
    case (Suc j)
    then have j: "j < length ts" using Cons.prems(4) by simp
    show ?thesis
    proof (cases "c \<ge> limit")
      case True
      with Cons.IH [where m=m and c=c, OF Cons.prems(1) Cons.prems(2) rest j] Suc show ?thesis
        by (simp add: run_live_step [where m=m and key=key, OF Cons.prems(1) t] del: run_checks.simps)
    next
      case False
      have ih: "fst (run_checks (fixed_window limit) key ts
                      (m(key \<mapsto> \<lparr>count = c + 1, resetTime = R\<rparr>))) ! j =
                  (if c + 1 + int j < limit
                   then \<lparr>allowed = True, remaining = limit - (c + 1 + int j + 1),
                          resetIn = R - ts ! j\<rparr>
                   else \<lparr>allowed = False, remaining = 0, resetIn = max 0 (R - ts ! j)\<rparr>)"
        by (rule Cons.IH) (use False rest j in simp_all)
      show ?thesis
        using False Suc
        by (simp add: run_live_step [where m=m and key=key, OF Cons.prems(1) t] ih add.assoc
                 del: run_checks.simps)
    qed
  qed
qed


lemma fixed_window_within_budget:
  assumes "within_budget limit m" and "1 \<le> limit"
  shows "within_budget limit (snd (fixed_window limit now key m))"
  using assms
  by (auto simp: within_budget_def fixed_window_def split: option.splits if_splits)

lemma cleanup_within_budget:
  assumes "within_budget limit m"
  shows "within_budget limit (cleanup now m)"
  using assms by (auto simp: within_budget_def cleanup_def split: option.splits if_splits)

lemma fixed_window_other_key:
  assumes "k \<noteq> key"
  shows "snd (fixed_window limit now key m) k = m k"
  using assms by (auto simp: fixed_window_def split: option.splits)

lemma cleanup_live:
  assumes "m key = Some r" and "now \<le> resetTime r"
  shows "cleanup now m key = Some r"
  using assms by (simp add: cleanup_def)

lemma window_run:
  assumes fresh: "m key = None \<or> (\<exists>r. m key = Some r \<and> resetTime r < t0)"
      and lim: "1 \<le> limit"
      and inwin: "\<forall>t\<in>set ts. t0 \<le> t \<and> t \<le> t0 + TIME_WINDOW"
  shows "snd (run_checks (fixed_window limit) key (t0 # ts) m) key
           = Some \<lparr>count = min limit (1 + int (length ts)), resetTime = t0 + TIME_WINDOW\<rparr>"
    and "i \<le> length ts \<Longrightarrow>
           window_verdict limit t0 i ((t0 # ts) ! i)
             (fst (run_checks (fixed_window limit) key (t0 # ts) m) ! i)"
proof -
  let ?m1 = "m(key \<mapsto> \<lparr>count = 1, resetTime = t0 + TIME_WINDOW\<rparr>)"
  have first: "fixed_window limit t0 key m =
                 (\<lparr>allowed = True, remaining = limit - 1, resetIn = TIME_WINDOW\<rparr>, ?m1)"
    using fresh by (rule fixed_window_fresh)
  have m1: "?m1 key = Some \<lparr>count = 1, resetTime = t0 + TIME_WINDOW\<rparr>"
    by simp
  have le: "\<forall>t\<in>set ts. t \<le> t0 + TIME_WINDOW"
    using inwin by simp
  have unfold: "run_checks (fixed_window limit) key (t0 # ts) m =
                  (\<lparr>allowed = True, remaining = limit - 1, resetIn = TIME_WINDOW\<rparr>
                     # fst (run_checks (fixed_window limit) key ts ?m1),
                   snd (run_checks (fixed_window limit) key ts ?m1))"
    by (simp add: first split_beta)
  show "snd (run_checks (fixed_window limit) key (t0 # ts) m) key
          = Some \<lparr>count = min limit (1 + int (length ts)), resetTime = t0 + TIME_WINDOW\<rparr>"
    unfolding unfold using run_live_store [where m="?m1" and key=key, OF m1 lim le] by simp
  show "window_verdict limit t0 i ((t0 # ts) ! i)
          (fst (run_checks (fixed_window limit) key (t0 # ts) m) ! i)"
    if i: "i \<le> length ts"
  proof (cases i)
    case 0
    then show ?thesis
      unfolding unfold using lim by (simp add: window_verdict_def)
  next
    case (Suc j)
    then have j: "j < length ts" using i by simp
    then have tj: "t0 \<le> ts ! j \<and> ts ! j \<le> t0 + TIME_WINDOW"
      using inwin by simp
    have nth: "fst (run_checks (fixed_window limit) key ts ?m1) ! j =
                 (if 1 + int j < limit
                  then \<lparr>allowed = True, remaining = limit - (1 + int j + 1),
                         resetIn = t0 + TIME_WINDOW - ts ! j\<rparr>
                  else \<lparr>allowed = False, remaining = 0,
                         resetIn = max 0 (t0 + TIME_WINDOW - ts ! j)\<rparr>)"
      using m1 lim le j by (rule run_live_nth [where m="?m1" and key=key])
    show ?thesis
      unfolding unfold using Suc tj
      by (simp add: nth window_verdict_def)
  qed
qed

text \<open>
  Claim C1, as the code has it. Take any key whose record is absent or expired at
  \<open>t0\<close>, a request at \<open>t0\<close> and any further requests for that key at times between
  \<open>t0\<close> and \<open>t0 + 60000\<close> inclusive (the code keeps a record alive up to and
  including its reset instant). Then on either route the \<open>i\<close>-th request (from 0) is
  allowed exactly when \<open>i\<close> is below the ceiling (10 for chat, 20 for token); every
  denied request reports \<open>remaining = 0\<close> and a \<open>resetIn\<close> between 0 and 60000,
  positive unless the request arrives exactly at the reset instant; the stored count
  is the number of requests capped at the ceiling; and any check on any key keeps
  every stored count at or below the ceiling.
\<close>

theorem fixed_window_budget:
  assumes "m key = None \<or> (\<exists>r. m key = Some r \<and> resetTime r < t0)"
      and "\<forall>t\<in>set ts. t0 \<le> t \<and> t \<le> t0 + TIME_WINDOW"
      and "i \<le> length ts"
  shows "window_verdict REQUEST_LIMIT t0 i ((t0 # ts) ! i)
           (fst (run_checks checkRateLimit key (t0 # ts) m) ! i)
       \<and> window_verdict TOKEN_REQUEST_LIMIT t0 i ((t0 # ts) ! i)
           (fst (run_checks checkTokenRateLimit key (t0 # ts) m) ! i)
       \<and> snd (run_checks checkRateLimit key (t0 # ts) m) key
           = Some \<lparr>count = min REQUEST_LIMIT (1 + int (length ts)),
                    resetTime = t0 + TIME_WINDOW\<rparr>
       \<and> snd (run_checks checkTokenRateLimit key (t0 # ts) m) key
           = Some \<lparr>count = min TOKEN_REQUEST_LIMIT (1 + int (length ts)),
                    resetTime = t0 + TIME_WINDOW\<rparr>
       \<and> (within_budget REQUEST_LIMIT m
            \<longrightarrow> within_budget REQUEST_LIMIT (snd (checkRateLimit now key2 m)))
       \<and> (within_budget TOKEN_REQUEST_LIMIT m
            \<longrightarrow> within_budget TOKEN_REQUEST_LIMIT (snd (checkTokenRateLimit now key2 m)))"
proof -
  have c: "(1::int) \<le> REQUEST_LIMIT" and t: "(1::int) \<le> TOKEN_REQUEST_LIMIT"
    by (simp_all add: REQUEST_LIMIT_def TOKEN_REQUEST_LIMIT_def)
  show ?thesis
    unfolding checkRateLimit_fixed_window checkTokenRateLimit_fixed_window
    using window_run [where m=m and key=key, OF assms(1) c assms(2)]
          window_run [where m=m and key=key, OF assms(1) t assms(2)]
          assms(3) fixed_window_within_budget [OF _ c] fixed_window_within_budget [OF _ t]
    by blast
qed

theorem fixed_window_budget_witness:
  "Map.empty ''203.0.113.7'' = (None :: rate_record option)
   \<and> (11::nat) \<le> length [100, 200, 300, 400, 500, 600, 700, 800, 900, 59000, 60000::int]
   \<and> \<not> allowed (fst (run_checks checkRateLimit ''203.0.113.7''
         [0, 100, 200, 300, 400, 500, 600, 700, 800, 900, 59000, 60000] Map.empty) ! 11)
   \<and> remaining (fst (run_checks checkRateLimit ''203.0.113.7''
         [0, 100, 200, 300, 400, 500, 600, 700, 800, 900, 59000, 60000] Map.empty) ! 11) = 0
   \<and> resetIn (fst (run_checks checkRateLimit ''203.0.113.7''
         [0, 100, 200, 300, 400, 500, 600, 700, 800, 900, 59000, 60000] Map.empty) ! 11) = 0
   \<and> allowed (fst (run_checks checkTokenRateLimit ''203.0.113.7''
         [0, 100, 200, 300, 400, 500, 600, 700, 800, 900, 59000, 60000] Map.empty) ! 11)
   \<and> snd (run_checks checkRateLimit ''203.0.113.7''
         [0, 100, 200, 300, 400, 500, 600, 700, 800, 900, 59000, 60000] Map.empty)
        ''203.0.113.7'' = Some \<lparr>count = 10, resetTime = 60000\<rparr>
   \<and> within_budget REQUEST_LIMIT (snd (checkRateLimit 5 ''198.51.100.2'' Map.empty))"
  using fixed_window_budget
    [of Map.empty "''203.0.113.7''" 0
        "[100, 200, 300, 400, 500, 600, 700, 800, 900, 59000, 60000]" 11 5 "''198.51.100.2''"]
  by (auto simp add: window_verdict_def within_budget_def TIME_WINDOW_def REQUEST_LIMIT_def
        TOKEN_REQUEST_LIMIT_def simp del: run_checks.simps)

text \<open>
  The claim as written asks for \<open>resetIn > 0\<close> on every denial. Ten requests at
  time 0 open a window that resets at 60000 and use up the budget; an eleventh at
  60000 is not past the reset time, so the record is kept, the request is denied and
  \<open>Math.max(0, resetTime - now)\<close> is 0.
\<close>

theorem denied_at_reset_instant_counterexample:
  "\<not> allowed (fst (run_checks checkRateLimit ''203.0.113.7''
         [0, 0, 0, 0, 0, 0, 0, 0, 0, 0, 60000] Map.empty) ! 10)
   \<and> \<not> 0 < resetIn (fst (run_checks checkRateLimit ''203.0.113.7''
         [0, 0, 0, 0, 0, 0, 0, 0, 0, 0, 60000] Map.empty) ! 10)
   \<and> snd (run_checks checkRateLimit ''203.0.113.7''
         [0, 0, 0, 0, 0, 0, 0, 0, 0, 0, 60000] Map.empty) ''203.0.113.7''
       = Some \<lparr>count = 10, resetTime = 60000\<rparr>"
  by (simp add: checkRateLimit_def REQUEST_LIMIT_def TIME_WINDOW_def)

section \<open>Lazy expiry\<close>

lemma checkRateLimit_expired:
  assumes "m key = Some r" and "now > resetTime r"
  shows "checkRateLimit now key m =
           (\<lparr>allowed = True, remaining = 9, resetIn = 60000\<rparr>,
            m(key \<mapsto> \<lparr>count = 1, resetTime = now + 60000\<rparr>))"
  using assms by (simp add: checkRateLimit_def REQUEST_LIMIT_def TIME_WINDOW_def)

lemma checkTokenRateLimit_expired:
  assumes "m key = Some r" and "now > resetTime r"
  shows "checkTokenRateLimit now key m =
           (\<lparr>allowed = True, remaining = 19, resetIn = 60000\<rparr>,
            m(key \<mapsto> \<lparr>count = 1, resetTime = now + 60000\<rparr>))"
  using assms by (simp add: checkTokenRateLimit_def TOKEN_REQUEST_LIMIT_def TIME_WINDOW_def)

lemma cleanup_expired_lookup:
  assumes "m key = Some r" and "now > resetTime r"
  shows "cleanup s m key = None \<or> cleanup s m key = Some r"
  using assms by (simp add: cleanup_def)

lemma checkRateLimit_absent:
  assumes "m key = None"
  shows "checkRateLimit now key m =
           (\<lparr>allowed = True, remaining = 9, resetIn = 60000\<rparr>,
            m(key \<mapsto> \<lparr>count = 1, resetTime = now + 60000\<rparr>))"
  using assms by (simp add: checkRateLimit_def REQUEST_LIMIT_def TIME_WINDOW_def)

lemma checkTokenRateLimit_absent:
  assumes "m key = None"
  shows "checkTokenRateLimit now key m =
           (\<lparr>allowed = True, remaining = 19, resetIn = 60000\<rparr>,
            m(key \<mapsto> \<lparr>count = 1, resetTime = now + 60000\<rparr>))"
  using assms by (simp add: checkTokenRateLimit_def TOKEN_REQUEST_LIMIT_def TIME_WINDOW_def)

text \<open>
  Claim C8. Whenever the clock reading \<open>now\<close> is strictly past the reset time of the
  record stored for a key, the next check for that key (on either route) is allowed,
  reports the full remaining budget of a first request and a full window, and leaves a
  fresh record with count 1 and reset time \<open>now + 60000\<close> for the key. The outcome is
  the same whether or not the periodic sweep ran (at any clock reading \<open>s\<close>) between
  the expiry and the check.
\<close>

theorem expired_window_is_reinitialised:
  assumes "m key = Some r" and "now > resetTime r"
  shows "fst (checkRateLimit now key m) = \<lparr>allowed = True, remaining = 9, resetIn = 60000\<rparr>
       \<and> snd (checkRateLimit now key m) key = Some \<lparr>count = 1, resetTime = now + 60000\<rparr>
       \<and> fst (checkRateLimit now key (cleanup s m)) = fst (checkRateLimit now key m)
       \<and> snd (checkRateLimit now key (cleanup s m)) key = snd (checkRateLimit now key m) key
       \<and> fst (checkTokenRateLimit now key m)
           = \<lparr>allowed = True, remaining = 19, resetIn = 60000\<rparr>
       \<and> snd (checkTokenRateLimit now key m) key = Some \<lparr>count = 1, resetTime = now + 60000\<rparr>
       \<and> fst (checkTokenRateLimit now key (cleanup s m)) = fst (checkTokenRateLimit now key m)
       \<and> snd (checkTokenRateLimit now key (cleanup s m)) key
           = snd (checkTokenRateLimit now key m) key"
proof -
  have "cleanup s m key = None \<or> cleanup s m key = Some r"
    using assms by (rule cleanup_expired_lookup)
  then consider "cleanup s m key = None" | "cleanup s m key = Some r" by auto
  then have swept:
    "checkRateLimit now key (cleanup s m) =
       (\<lparr>allowed = True, remaining = 9, resetIn = 60000\<rparr>,
        (cleanup s m)(key \<mapsto> \<lparr>count = 1, resetTime = now + 60000\<rparr>))
     \<and> checkTokenRateLimit now key (cleanup s m) =
       (\<lparr>allowed = True, remaining = 19, resetIn = 60000\<rparr>,
        (cleanup s m)(key \<mapsto> \<lparr>count = 1, resetTime = now + 60000\<rparr>))"
  proof cases
    case 1
    then show ?thesis
      by (simp add: checkRateLimit_absent checkTokenRateLimit_absent)
  next
    case 2
    then show ?thesis
      using assms(2) by (simp add: checkRateLimit_expired checkTokenRateLimit_expired)
  qed
  have direct:
    "checkRateLimit now key m =
       (\<lparr>allowed = True, remaining = 9, resetIn = 60000\<rparr>,
        m(key \<mapsto> \<lparr>count = 1, resetTime = now + 60000\<rparr>))"
    "checkTokenRateLimit now key m =
       (\<lparr>allowed = True, remaining = 19, resetIn = 60000\<rparr>,
        m(key \<mapsto> \<lparr>count = 1, resetTime = now + 60000\<rparr>))"
    using assms by (simp_all add: checkRateLimit_expired checkTokenRateLimit_expired)
  show ?thesis
    using swept by (simp add: direct)
qed

theorem expired_window_is_reinitialised_witness:
  "[''1.2.3.4'' \<mapsto> \<lparr>count = 10, resetTime = 60000\<rparr>] ''1.2.3.4''
     = Some \<lparr>count = 10, resetTime = 60000\<rparr>
   \<and> (60001::int) > resetTime \<lparr>count = 10, resetTime = 60000\<rparr>
   \<and> fst (checkRateLimit 60001 ''1.2.3.4''
          [''1.2.3.4'' \<mapsto> \<lparr>count = 10, resetTime = 60000\<rparr>])
     = \<lparr>allowed = True, remaining = 9, resetIn = 60000\<rparr>
   \<and> snd (checkRateLimit 60001 ''1.2.3.4''
          [''1.2.3.4'' \<mapsto> \<lparr>count = 10, resetTime = 60000\<rparr>]) ''1.2.3.4''
     = Some \<lparr>count = 1, resetTime = 120001\<rparr>
   \<and> fst (checkTokenRateLimit 60001 ''1.2.3.4''
          [''1.2.3.4'' \<mapsto> \<lparr>count = 10, resetTime = 60000\<rparr>])
     = \<lparr>allowed = True, remaining = 19, resetIn = 60000\<rparr>"
  using expired_window_is_reinitialised
    [of "[''1.2.3.4'' \<mapsto> \<lparr>count = 10, resetTime = 60000\<rparr>]" "''1.2.3.4''"
        "\<lparr>count = 10, resetTime = 60000\<rparr>" 60001 0]
  by simp

section \<open>String tests\<close>

lemma includes_str_sublist: "includes_str s t = sublist t s"
  by (induction s) (auto simp: sublist_Cons_right)

lemma dropWhile_all_iff: "(\<forall>x\<in>set (dropWhile P s). P x) \<longleftrightarrow> dropWhile P s = []"
proof
  assume all: "\<forall>x\<in>set (dropWhile P s). P x"
  show "dropWhile P s = []"
  proof (rule ccontr)
    assume ne: "dropWhile P s \<noteq> []"
    then have "\<not> P (hd (dropWhile P s))" by (rule hd_dropWhile)
    moreover have "hd (dropWhile P s) \<in> set (dropWhile P s)" using ne by simp
    ultimately show False using all by blast
  qed
qed (auto dest: set_dropWhileD)

lemma trim_empty_iff: "trim s = [] \<longleftrightarrow> (\<forall>c\<in>set s. isWhiteSpace c)"
proof -
  have "trim s = [] \<longleftrightarrow> (\<forall>x\<in>set (dropWhile isWhiteSpace s). isWhiteSpace x)"
    by (simp add: trim_def)
  also have "\<dots> \<longleftrightarrow> dropWhile isWhiteSpace s = []"
    by (rule dropWhile_all_iff)
  also have "\<dots> \<longleftrightarrow> (\<forall>c\<in>set s. isWhiteSpace c)"
    by simp
  finally show ?thesis .
qed


section \<open>The chat handler\<close>

lemmas sample_simps =
  sample_uri_def sample_request_def scripted_def getRateLimitKey_def checkRateLimit_def
  REQUEST_LIMIT_def TIME_WINDOW_def startsWith_def


lemma POST_chat_store:
  "snd (POST_chat ai now req m) = snd (checkRateLimit now (getRateLimitKey req) m)"
  by (simp add: POST_chat_def Let_def split_beta split: sum.splits option.splits)

lemma POST_chat_stages:
  assumes "allowed (fst (checkRateLimit now (getRateLimitKey req) m))"
      and "json req = Inr (Some uri)" and "uri \<noteq> []" and "startsWith uri ''data:audio/''"
  shows "fst (POST_chat ai now req m) =
           (case chat_stages ai uri
                   (remaining (fst (checkRateLimit now (getRateLimitKey req) m))) of
              (Inl error, calls) \<Rightarrow> (chat_catch error, calls)
            | (Inr res, calls) \<Rightarrow> (res, calls))"
  using assms
  by (simp add: POST_chat_def Let_def split_beta split: sum.splits prod.splits)

lemma chat_stages_status: "fst (chat_stages ai uri rem) = Inr res \<Longrightarrow> status res \<noteq> 400"
  by (auto simp: chat_stages_def split: sum.splits if_splits)

lemma chat_catch_status: "status (chat_catch e) \<noteq> 400"
  by (simp add: chat_catch_def split: thrown.splits)

lemma POST_chat_400:
  assumes "status (fst (fst (POST_chat ai now req m))) = 400"
  shows "allowed (fst (checkRateLimit now (getRateLimitKey req) m))
       \<and> snd (fst (POST_chat ai now req m)) = []"
  using assms chat_catch_status chat_stages_status [of ai]
  by (auto simp: POST_chat_def Let_def split_beta split: sum.splits option.splits if_splits prod.splits)

lemma stage1_quota:
  assumes "transcribeUserSpeech ai uri = Inl e" and "isQuotaError e"
  shows "chat_stages ai uri rem =
           (Inr \<lparr>status = 429,
                 body = QuotaBody ''AI service quota exceeded. Please try again in a few moments.'',
                 headers = []\<rparr>, [Transcribe uri])"
  using assms by (simp add: chat_stages_def)

lemma stage1_other:
  assumes "transcribeUserSpeech ai uri = Inl e" and "\<not> isQuotaError e"
  shows "chat_stages ai uri rem = (Inl e, [Transcribe uri])"
  using assms by (simp add: chat_stages_def)

lemma stage1_blank:
  assumes "transcribeUserSpeech ai uri = Inr t" and "trim t = []"
  shows "chat_stages ai uri rem =
           (Inr \<lparr>status = 200,
                 body = ChatBody [] ''Sorry, I couldn't understand that. Please try again.'' [],
                 headers = []\<rparr>, [Transcribe uri])"
  using assms by (simp add: chat_stages_def)

lemma stage2_quota:
  assumes "transcribeUserSpeech ai uri = Inr t" and "t \<noteq> []" and "trim t \<noteq> []"
      and "generateAIResponse ai t = Inl e" and "isQuotaError e"
  shows "chat_stages ai uri rem =
           (Inr \<lparr>status = 429,
                 body = QuotaBody ''AI service is busy. Please try again shortly.'',
                 headers = []\<rparr>, [Transcribe uri, Generate t])"
  using assms by (simp add: chat_stages_def)

lemma stage2_other:
  assumes "transcribeUserSpeech ai uri = Inr t" and "t \<noteq> []" and "trim t \<noteq> []"
      and "generateAIResponse ai t = Inl e" and "\<not> isQuotaError e"
  shows "chat_stages ai uri rem = (Inl e, [Transcribe uri, Generate t])"
  using assms by (simp add: chat_stages_def)

lemma stage3_invoked:
  assumes "transcribeUserSpeech ai uri = Inr t" and "generateAIResponse ai t = Inr r"
      and "Synthesize r \<in> set (snd (chat_stages ai uri rem))"
  shows "t \<noteq> [] \<and> trim t \<noteq> [] \<and> r \<noteq> [] \<and> trim r \<noteq> []"
  using assms by (auto simp: chat_stages_def split: sum.splits if_splits)

lemma stage3_failed:
  assumes "transcribeUserSpeech ai uri = Inr t" and "t \<noteq> []" and "trim t \<noteq> []"
      and "generateAIResponse ai t = Inr r" and "r \<noteq> []" and "trim r \<noteq> []"
      and "convertTextToSpeech ai r = Inl e"
  shows "chat_stages ai uri rem =
           (Inr \<lparr>status = 200, body = ChatBody t r [], headers = []\<rparr>,
            [Transcribe uri, Generate t, Synthesize r])"
  using assms by (simp add: chat_stages_def)

lemma chat_catch_generic:
  assumes "\<not> isQuotaError e"
  shows "chat_catch e =
           (case e of
              Error msg \<Rightarrow>
                if includes_str msg ''timeout''
                then \<lparr>status = 504, body = FailureBody ''Request timeout. Please try again.'',
                       headers = []\<rparr>
                else if includes_str msg ''network''
                then \<lparr>status = 503, body = FailureBody ''Service temporarily unavailable.'',
                       headers = []\<rparr>
                else \<lparr>status = 500, body = FailureBody msg, headers = []\<rparr>
            | NotAnError \<Rightarrow>
                \<lparr>status = 500, body = FailureBody ''Internal Server Error'', headers = []\<rparr>)"
  using assms by (auto simp: chat_catch_def isQuotaError_def split: thrown.splits)


text \<open>
  Claim C2, as the code has it. Take a chat request that passes the rate limit and
  validation, and let the transcription stage, or the generation stage after a
  non-blank transcription, throw \<open>e\<close>. If \<open>e\<close> is an \<open>Error\<close> whose message contains
  \<open>quota\<close>, \<open>rate limit\<close> or \<open>429\<close>, the response has status 429 and the body marked
  \<open>quotaExceeded\<close>. Every other thrown value reaches the outer \<open>catch\<close> and gives the
  unmarked failure body, with status 504 when the message contains \<open>timeout\<close>, 503
  when it contains \<open>network\<close>, and 500 otherwise (also for a value that is not an
  \<open>Error\<close>).
\<close>

theorem stage_failures_are_classified:
  assumes "allowed (fst (checkRateLimit now (getRateLimitKey req) m))"
      and "json req = Inr (Some uri)" and "uri \<noteq> []" and "startsWith uri ''data:audio/''"
      and "transcribeUserSpeech ai uri = Inl e
           \<or> (\<exists>t. transcribeUserSpeech ai uri = Inr t \<and> trim t \<noteq> []
                  \<and> generateAIResponse ai t = Inl e)"
  shows "(isQuotaError e \<longrightarrow>
            status (fst (fst (POST_chat ai now req m))) = 429
            \<and> (\<exists>msg. body (fst (fst (POST_chat ai now req m))) = QuotaBody msg))
       \<and> (\<not> isQuotaError e \<longrightarrow>
            fst (fst (POST_chat ai now req m)) = chat_catch e
            \<and> (\<exists>msg. body (fst (fst (POST_chat ai now req m))) = FailureBody msg)
            \<and> status (fst (fst (POST_chat ai now req m))) =
                (case e of
                   Error msg \<Rightarrow> if includes_str msg ''timeout'' then 504
                                else if includes_str msg ''network'' then 503 else 500
                 | NotAnError \<Rightarrow> 500))"
proof -
  let ?rem = "remaining (fst (checkRateLimit now (getRateLimitKey req) m))"
  note post = POST_chat_stages [where ai=ai, OF assms(1-4)]
  have generic: "\<not> isQuotaError e \<Longrightarrow>
                   (\<exists>msg. body (chat_catch e) = FailureBody msg)
                   \<and> status (chat_catch e) =
                       (case e of
                          Error msg \<Rightarrow> if includes_str msg ''timeout'' then 504
                                       else if includes_str msg ''network'' then 503 else 500
                        | NotAnError \<Rightarrow> 500)"
    by (simp add: chat_catch_generic split: thrown.splits)
  from assms(5) show ?thesis
  proof
    assume t: "transcribeUserSpeech ai uri = Inl e"
    show ?thesis
    proof (cases "isQuotaError e")
      case True
      then show ?thesis by (simp add: post stage1_quota [OF t])
    next
      case False
      then show ?thesis using generic by (simp add: post stage1_other [OF t])
    qed
  next
    assume "\<exists>t. transcribeUserSpeech ai uri = Inr t \<and> trim t \<noteq> []
               \<and> generateAIResponse ai t = Inl e"
    then obtain t where t: "transcribeUserSpeech ai uri = Inr t" and nb: "trim t \<noteq> []"
      and g: "generateAIResponse ai t = Inl e" by blast
    from nb have ne: "t \<noteq> []" by (auto simp: trim_def)
    show ?thesis
    proof (cases "isQuotaError e")
      case True
      then show ?thesis by (simp add: post stage2_quota [OF t ne nb g])
    next
      case False
      then show ?thesis using generic by (simp add: post stage2_other [OF t ne nb g])
    qed
  qed
qed


theorem stage_failures_are_classified_witness:
  "isQuotaError (Error ''[429 Too Many Requests] You exceeded your current quota'')
   \<and> status (fst (fst (POST_chat
        (scripted (Inr ''What time is it?'')
           (Inl (Error ''[429 Too Many Requests] You exceeded your current quota''))
           (Inl NotAnError))
        0 sample_request Map.empty))) = 429
   \<and> \<not> isQuotaError (Error ''socket hang up'')
   \<and> status (fst (fst (POST_chat
        (scripted (Inl (Error ''socket hang up'')) (Inl NotAnError) (Inl NotAnError))
        0 sample_request Map.empty))) = 500"
proof -
  have a: "allowed (fst (checkRateLimit 0 (getRateLimitKey sample_request) Map.empty))"
    by (simp add: sample_simps)
  have j: "json sample_request = Inr (Some sample_uri)"
    by (simp add: sample_simps)
  have n: "sample_uri \<noteq> []" and p: "startsWith sample_uri ''data:audio/''"
    by (simp_all add: sample_simps)
  have q: "isQuotaError (Error ''[429 Too Many Requests] You exceeded your current quota'')"
    and g: "\<not> isQuotaError (Error ''socket hang up'')"
    by (simp_all add: isQuotaError_def)
  let ?busy = "scripted (Inr ''What time is it?'')
                 (Inl (Error ''[429 Too Many Requests] You exceeded your current quota''))
                 (Inl NotAnError)"
  let ?down = "scripted (Inl (Error ''socket hang up'')) (Inl NotAnError) (Inl NotAnError)"
  have s2: "transcribeUserSpeech ?busy sample_uri
              = Inl (Error ''[429 Too Many Requests] You exceeded your current quota'')
            \<or> (\<exists>t. transcribeUserSpeech ?busy sample_uri = Inr t \<and> trim t \<noteq> []
                  \<and> generateAIResponse ?busy t
                      = Inl (Error ''[429 Too Many Requests] You exceeded your current quota''))"
    by (simp add: scripted_def trim_def isWhiteSpace_def)
  have s1: "transcribeUserSpeech ?down sample_uri = Inl (Error ''socket hang up'')
            \<or> (\<exists>t. transcribeUserSpeech ?down sample_uri = Inr t \<and> trim t \<noteq> []
                  \<and> generateAIResponse ?down t = Inl (Error ''socket hang up''))"
    by (simp add: scripted_def)
  from stage_failures_are_classified [where ai="?busy", OF a j n p s2]
       stage_failures_are_classified [where ai="?down", OF a j n p s1] q g
  show ?thesis by (simp add: chat_catch_def)
qed


text \<open>
  The claim as written gives every other exception status 500. A transcription that
  throws \<open>Error('network connection lost')\<close> is not a quota error, and the outer
  \<open>catch\<close> answers it with 503.
\<close>

theorem network_failure_is_not_500_counterexample:
  "transcribeUserSpeech
     (scripted (Inl (Error ''network connection lost'')) (Inl NotAnError) (Inl NotAnError))
     sample_uri = Inl (Error ''network connection lost'')
   \<and> \<not> isQuotaError (Error ''network connection lost'')
   \<and> status (fst (fst (POST_chat
        (scripted (Inl (Error ''network connection lost'')) (Inl NotAnError) (Inl NotAnError))
        0 sample_request Map.empty))) = 503"
  by (simp add: sample_simps POST_chat_def chat_stages_def chat_catch_def isQuotaError_def)


text \<open>
  Claim C3. For every chat request that passes the rate limit and validation and
  whose transcription is empty or consists of white space only, the handler answers
  200 with an empty transcription, the canned text and an empty \<open>audioDataUri\<close>, and
  the only flow invoked is the transcription: neither response generation nor speech
  synthesis runs.
\<close>

theorem blank_transcription_short_circuits:
  assumes "allowed (fst (checkRateLimit now (getRateLimitKey req) m))"
      and "json req = Inr (Some uri)" and "uri \<noteq> []" and "startsWith uri ''data:audio/''"
      and "transcribeUserSpeech ai uri = Inr t" and "\<forall>c\<in>set t. isWhiteSpace c"
  shows "fst (POST_chat ai now req m) =
           (\<lparr>status = 200,
             body = ChatBody [] ''Sorry, I couldn't understand that. Please try again.'' [],
             headers = []\<rparr>,
            [Transcribe uri])"
proof -
  have "trim t = []" using assms(6) by (simp add: trim_empty_iff)
  then show ?thesis
    by (simp add: POST_chat_stages [where ai=ai, OF assms(1-4)] stage1_blank [OF assms(5)])
qed


theorem blank_transcription_short_circuits_witness:
  "isWhiteSpace (CHR '' '') \<and> isWhiteSpace (CHR 0x0A)
   \<and> fst (POST_chat
        (scripted (Inr [CHR '' '', CHR 0x0A]) (Inr ''unused'') (Inr ''unused''))
        0 sample_request Map.empty) =
       (\<lparr>status = 200,
         body = ChatBody [] ''Sorry, I couldn't understand that. Please try again.'' [],
         headers = []\<rparr>,
        [Transcribe sample_uri])"
proof -
  have a: "allowed (fst (checkRateLimit 0 (getRateLimitKey sample_request) Map.empty))"
    by (simp add: sample_simps)
  have j: "json sample_request = Inr (Some sample_uri)"
    by (simp add: sample_simps)
  have n: "sample_uri \<noteq> []" and p: "startsWith sample_uri ''data:audio/''"
    by (simp_all add: sample_simps)
  have w: "\<forall>c\<in>set [CHR '' '', CHR 0x0A]. isWhiteSpace c"
    by (simp add: isWhiteSpace_def)
  have t: "transcribeUserSpeech
             (scripted (Inr [CHR '' '', CHR 0x0A]) (Inr ''unused'') (Inr ''unused''))
             sample_uri = Inr [CHR '' '', CHR 0x0A]"
    by (simp add: scripted_def)
  from blank_transcription_short_circuits [OF a j n p t w] w
  show ?thesis by simp
qed


text \<open>
  Claim C4. For every chat request that passes the rate limit and validation, in
  which transcription returns \<open>t\<close>, generation returns \<open>r\<close>, and speech synthesis is
  invoked on \<open>r\<close> and throws, the handler answers 200 with transcription \<open>t\<close>, reply
  text \<open>r\<close> and an empty \<open>audioDataUri\<close>; \<open>t\<close> and \<open>r\<close> are then non-empty.
\<close>

theorem failed_synthesis_degrades:
  assumes "allowed (fst (checkRateLimit now (getRateLimitKey req) m))"
      and "json req = Inr (Some uri)" and "uri \<noteq> []" and "startsWith uri ''data:audio/''"
      and "transcribeUserSpeech ai uri = Inr t" and "generateAIResponse ai t = Inr r"
      and "Synthesize r \<in> set (snd (fst (POST_chat ai now req m)))"
      and "convertTextToSpeech ai r = Inl e"
  shows "fst (fst (POST_chat ai now req m))
           = \<lparr>status = 200, body = ChatBody t r [], headers = []\<rparr>
       \<and> t \<noteq> [] \<and> r \<noteq> []"
proof -
  let ?rem = "remaining (fst (checkRateLimit now (getRateLimitKey req) m))"
  note post = POST_chat_stages [where ai=ai, OF assms(1-4)]
  have "Synthesize r \<in> set (snd (chat_stages ai uri ?rem))"
    using assms(7) by (simp add: post split: prod.splits sum.splits)
  from stage3_invoked [OF assms(5,6) this]
  have nb: "t \<noteq> []" "trim t \<noteq> []" "r \<noteq> []" "trim r \<noteq> []" by simp_all
  show ?thesis
    using nb by (simp add: post stage3_failed [OF assms(5) nb(1,2) assms(6) nb(3,4) assms(8)])
qed


theorem failed_synthesis_degrades_witness:
  "Synthesize ''Hi there!'' \<in> set (snd (fst (POST_chat
        (scripted (Inr ''hello'') (Inr ''Hi there!'') (Inl (Error ''no media returned'')))
        0 sample_request Map.empty)))
   \<and> fst (fst (POST_chat
        (scripted (Inr ''hello'') (Inr ''Hi there!'') (Inl (Error ''no media returned'')))
        0 sample_request Map.empty))
       = \<lparr>status = 200, body = ChatBody ''hello'' ''Hi there!'' [], headers = []\<rparr>"
proof -
  let ?ai = "scripted (Inr ''hello'') (Inr ''Hi there!'') (Inl (Error ''no media returned''))"
  have a: "allowed (fst (checkRateLimit 0 (getRateLimitKey sample_request) Map.empty))"
    by (simp add: sample_simps)
  have j: "json sample_request = Inr (Some sample_uri)"
    by (simp add: sample_simps)
  have n: "sample_uri \<noteq> []" and p: "startsWith sample_uri ''data:audio/''"
    by (simp_all add: sample_simps)
  have t: "transcribeUserSpeech ?ai sample_uri = Inr ''hello''"
    and g: "generateAIResponse ?ai ''hello'' = Inr ''Hi there!''"
    and s: "convertTextToSpeech ?ai ''Hi there!'' = Inl (Error ''no media returned'')"
    by (simp_all add: scripted_def)
  have c: "Synthesize ''Hi there!'' \<in> set (snd (fst (POST_chat ?ai 0 sample_request Map.empty)))"
    by (simp add: sample_simps POST_chat_def chat_stages_def trim_def isWhiteSpace_def)
  from failed_synthesis_degrades [OF a j n p t g c s] c
  show ?thesis by simp
qed

section \<open>Validation failures and the rate-limit map\<close>

lemma fixed_window_allowed_record:
  assumes "allowed (fst (fixed_window limit now key m))"
  shows "snd (fixed_window limit now key m) key =
           Some (case m key of
                   None \<Rightarrow> \<lparr>count = 1, resetTime = now + TIME_WINDOW\<rparr>
                 | Some r \<Rightarrow> if now > resetTime r
                             then \<lparr>count = 1, resetTime = now + TIME_WINDOW\<rparr>
                             else r\<lparr>count := count r + 1\<rparr>)"
  using assms by (auto simp: fixed_window_def split: option.splits if_splits)

lemma fixed_window_allowed_changes:
  assumes "allowed (fst (fixed_window limit now key m))"
  shows "snd (fixed_window limit now key m) key \<noteq> m key"
proof (cases "m key")
  case None
  then show ?thesis by (simp add: fixed_window_def)
next
  case (Some r)
  show ?thesis
  proof (cases "now > resetTime r")
    case True
    have "resetTime \<lparr>count = 1, resetTime = now + TIME_WINDOW\<rparr> \<noteq> resetTime r"
      using True by (simp add: TIME_WINDOW_def)
    then have "\<lparr>count = 1, resetTime = now + TIME_WINDOW\<rparr> \<noteq> r" by auto
    then show ?thesis using Some True by (simp add: fixed_window_def)
  next
    case False
    have "count (r\<lparr>count := count r + 1\<rparr>) \<noteq> count r" by simp
    then have "r\<lparr>count := count r + 1\<rparr> \<noteq> r" by (metis)
    then show ?thesis using Some False assms by (auto simp: fixed_window_def split: if_splits)
  qed
qed

lemma token_catch_status: "status (token_catch e) \<noteq> 400"
  by (simp add: token_catch_def split: thrown.splits)

lemma POST_token_store:
  "snd (POST_token env toJwt now req m) = snd (checkTokenRateLimit now (getRateLimitKey req) m)"
  by (simp add: POST_token_def Let_def split_beta split: sum.splits option.splits)

lemma POST_token_400:
  assumes "status (fst (POST_token env toJwt now req m)) = 400"
  shows "allowed (fst (checkTokenRateLimit now (getRateLimitKey req) m))"
  using assms token_catch_status
  by (auto simp: POST_token_def Let_def split_beta split: sum.splits option.splits if_splits)


text \<open>
  Claim C6, as the code has it. Both handlers run the rate-limit check before they
  validate the body. So for every request answered with 400, on either route, the map
  afterwards is the one the check produced: the request was allowed and counted, the
  record of its key is a fresh one with count 1 (no record, or an expired one) or the
  old one with its count increased by 1, it differs from the record before, and the
  records of all other keys are unchanged. On the chat route no flow was invoked.
\<close>

theorem validation_rejection_counts_the_request:
  "(status (fst (fst (POST_chat ai now req m))) = 400 \<longrightarrow>
      snd (fst (POST_chat ai now req m)) = []
      \<and> snd (POST_chat ai now req m) = snd (checkRateLimit now (getRateLimitKey req) m)
      \<and> snd (POST_chat ai now req m) (getRateLimitKey req) =
          Some (case m (getRateLimitKey req) of
                  None \<Rightarrow> \<lparr>count = 1, resetTime = now + TIME_WINDOW\<rparr>
                | Some r \<Rightarrow> if now > resetTime r
                            then \<lparr>count = 1, resetTime = now + TIME_WINDOW\<rparr>
                            else r\<lparr>count := count r + 1\<rparr>)
      \<and> snd (POST_chat ai now req m) (getRateLimitKey req) \<noteq> m (getRateLimitKey req)
      \<and> (\<forall>k. k \<noteq> getRateLimitKey req \<longrightarrow> snd (POST_chat ai now req m) k = m k))
   \<and> (status (fst (POST_token env toJwt now treq m)) = 400 \<longrightarrow>
      snd (POST_token env toJwt now treq m)
        = snd (checkTokenRateLimit now (getRateLimitKey treq) m)
      \<and> snd (POST_token env toJwt now treq m) (getRateLimitKey treq) =
          Some (case m (getRateLimitKey treq) of
                  None \<Rightarrow> \<lparr>count = 1, resetTime = now + TIME_WINDOW\<rparr>
                | Some r \<Rightarrow> if now > resetTime r
                            then \<lparr>count = 1, resetTime = now + TIME_WINDOW\<rparr>
                            else r\<lparr>count := count r + 1\<rparr>)
      \<and> snd (POST_token env toJwt now treq m) (getRateLimitKey treq)
          \<noteq> m (getRateLimitKey treq)
      \<and> (\<forall>k. k \<noteq> getRateLimitKey treq \<longrightarrow> snd (POST_token env toJwt now treq m) k = m k))"
proof (intro conjI impI)
  assume s: "status (fst (fst (POST_chat ai now req m))) = 400"
  from POST_chat_400 [OF s]
  have a: "allowed (fst (fixed_window REQUEST_LIMIT now (getRateLimitKey req) m))"
    and c: "snd (fst (POST_chat ai now req m)) = []"
    by (simp_all add: checkRateLimit_fixed_window)
  show "snd (fst (POST_chat ai now req m)) = []" by (rule c)
  show "snd (POST_chat ai now req m) = snd (checkRateLimit now (getRateLimitKey req) m)"
    by (rule POST_chat_store)
  show "snd (POST_chat ai now req m) (getRateLimitKey req) =
          Some (case m (getRateLimitKey req) of
                  None \<Rightarrow> \<lparr>count = 1, resetTime = now + TIME_WINDOW\<rparr>
                | Some r \<Rightarrow> if now > resetTime r
                            then \<lparr>count = 1, resetTime = now + TIME_WINDOW\<rparr>
                            else r\<lparr>count := count r + 1\<rparr>)"
    using fixed_window_allowed_record [OF a]
    by (simp add: POST_chat_store checkRateLimit_fixed_window)
  show "snd (POST_chat ai now req m) (getRateLimitKey req) \<noteq> m (getRateLimitKey req)"
    using fixed_window_allowed_changes [OF a]
    by (simp add: POST_chat_store checkRateLimit_fixed_window)
  show "\<forall>k. k \<noteq> getRateLimitKey req \<longrightarrow> snd (POST_chat ai now req m) k = m k"
    by (simp add: POST_chat_store checkRateLimit_fixed_window fixed_window_other_key)
next
  assume s: "status (fst (POST_token env toJwt now treq m)) = 400"
  from POST_token_400 [OF s]
  have a: "allowed (fst (fixed_window TOKEN_REQUEST_LIMIT now (getRateLimitKey treq) m))"
    by (simp add: checkTokenRateLimit_fixed_window)
  show "snd (POST_token env toJwt now treq m)
          = snd (checkTokenRateLimit now (getRateLimitKey treq) m)"
    by (rule POST_token_store)
  show "snd (POST_token env toJwt now treq m) (getRateLimitKey treq) =
          Some (case m (getRateLimitKey treq) of
                  None \<Rightarrow> \<lparr>count = 1, resetTime = now + TIME_WINDOW\<rparr>
                | Some r \<Rightarrow> if now > resetTime r
                            then \<lparr>count = 1, resetTime = now + TIME_WINDOW\<rparr>
                            else r\<lparr>count := count r + 1\<rparr>)"
    using fixed_window_allowed_record [OF a]
    by (simp add: POST_token_store checkTokenRateLimit_fixed_window)
  show "snd (POST_token env toJwt now treq m) (getRateLimitKey treq)
          \<noteq> m (getRateLimitKey treq)"
    using fixed_window_allowed_changes [OF a]
    by (simp add: POST_token_store checkTokenRateLimit_fixed_window)
  show "\<forall>k. k \<noteq> getRateLimitKey treq \<longrightarrow> snd (POST_token env toJwt now treq m) k = m k"
    by (simp add: POST_token_store checkTokenRateLimit_fixed_window fixed_window_other_key)
qed


theorem validation_rejection_counts_the_request_witness:
  "status (fst (fst (POST_chat (scripted (Inl NotAnError) (Inl NotAnError) (Inl NotAnError)) 1000
        \<lparr>xForwardedFor = Some ''203.0.113.7'', xRealIp = None, json = Inr (Some ''hello'')\<rparr>
        [''203.0.113.7'' \<mapsto> \<lparr>count = 3, resetTime = 20000\<rparr>]))) = 400
   \<and> snd (POST_chat (scripted (Inl NotAnError) (Inl NotAnError) (Inl NotAnError)) 1000
        \<lparr>xForwardedFor = Some ''203.0.113.7'', xRealIp = None, json = Inr (Some ''hello'')\<rparr>
        [''203.0.113.7'' \<mapsto> \<lparr>count = 3, resetTime = 20000\<rparr>]) ''203.0.113.7''
       = Some \<lparr>count = 4, resetTime = 20000\<rparr>
   \<and> status (fst (POST_token
        \<lparr>LIVEKIT_API_KEY = None, LIVEKIT_API_SECRET = None, NEXT_PUBLIC_LIVEKIT_URL = None\<rparr>
        (\<lambda>at. Inl NotAnError) 1000
        \<lparr>xForwardedFor = Some ''203.0.113.7'', xRealIp = None,
         json = Inr \<lparr>roomName = Some ''abc 1'', participantName = Some ''bob_2''\<rparr>\<rparr>
        [''203.0.113.7'' \<mapsto> \<lparr>count = 3, resetTime = 20000\<rparr>])) = 400
   \<and> snd (POST_token
        \<lparr>LIVEKIT_API_KEY = None, LIVEKIT_API_SECRET = None, NEXT_PUBLIC_LIVEKIT_URL = None\<rparr>
        (\<lambda>at. Inl NotAnError) 1000
        \<lparr>xForwardedFor = Some ''203.0.113.7'', xRealIp = None,
         json = Inr \<lparr>roomName = Some ''abc 1'', participantName = Some ''bob_2''\<rparr>\<rparr>
        [''203.0.113.7'' \<mapsto> \<lparr>count = 3, resetTime = 20000\<rparr>]) ''203.0.113.7''
       = Some \<lparr>count = 4, resetTime = 20000\<rparr>"
proof -
  let ?ai = "scripted (Inl NotAnError) (Inl NotAnError) (Inl NotAnError)"
  let ?req = "\<lparr>xForwardedFor = Some ''203.0.113.7'', xRealIp = None,
                json = Inr (Some ''hello'')\<rparr>"
  let ?env = "\<lparr>LIVEKIT_API_KEY = None, LIVEKIT_API_SECRET = None,
                NEXT_PUBLIC_LIVEKIT_URL = None\<rparr>"
  let ?treq = "\<lparr>xForwardedFor = Some ''203.0.113.7'', xRealIp = None,
                 json = Inr \<lparr>roomName = Some ''abc 1'', participantName = Some ''bob_2''\<rparr>\<rparr>"
  let ?m = "[''203.0.113.7'' \<mapsto> \<lparr>count = 3, resetTime = 20000\<rparr>]"
  have c: "status (fst (fst (POST_chat ?ai 1000 ?req ?m))) = 400"
    by (simp add: POST_chat_def getRateLimitKey_def checkRateLimit_def REQUEST_LIMIT_def
          startsWith_def)
  have t: "status (fst (POST_token ?env (\<lambda>at. Inl NotAnError) 1000 ?treq ?m)) = 400"
    by (simp add: POST_token_def getRateLimitKey_def checkTokenRateLimit_def
          TOKEN_REQUEST_LIMIT_def validName_def identChar_def)
  have k: "getRateLimitKey ?req = ''203.0.113.7''" "getRateLimitKey ?treq = ''203.0.113.7''"
    by (simp_all add: getRateLimitKey_def)
  from validation_rejection_counts_the_request
         [of ?ai 1000 ?req ?m ?env "\<lambda>at. Inl NotAnError" ?treq] c t
  show ?thesis
    by (simp add: k checkRateLimit_def checkTokenRateLimit_def REQUEST_LIMIT_def
          TOKEN_REQUEST_LIMIT_def)
qed


text \<open>
  The claim as written says the map is unchanged. A chat request without
  \<open>audioDataUri\<close>, the first from its address, is answered 400 and leaves a record
  with count 1 in a map that was empty.
\<close>

theorem validation_rejection_changes_counter_counterexample:
  "status (fst (fst (POST_chat (scripted (Inl NotAnError) (Inl NotAnError) (Inl NotAnError)) 1000
        \<lparr>xForwardedFor = Some ''203.0.113.7'', xRealIp = None, json = Inr None\<rparr>
        Map.empty))) = 400
   \<and> snd (POST_chat (scripted (Inl NotAnError) (Inl NotAnError) (Inl NotAnError)) 1000
        \<lparr>xForwardedFor = Some ''203.0.113.7'', xRealIp = None, json = Inr None\<rparr>
        Map.empty) \<noteq> Map.empty
   \<and> snd (POST_chat (scripted (Inl NotAnError) (Inl NotAnError) (Inl NotAnError)) 1000
        \<lparr>xForwardedFor = Some ''203.0.113.7'', xRealIp = None, json = Inr None\<rparr>
        Map.empty) ''203.0.113.7'' = Some \<lparr>count = 1, resetTime = 61000\<rparr>"
  by (simp add: POST_chat_def getRateLimitKey_def checkRateLimit_def REQUEST_LIMIT_def
        TIME_WINDOW_def)

section \<open>Token issuance and identifier validation\<close>

lemma POST_token_valid_config:
  assumes "allowed (fst (checkTokenRateLimit now (getRateLimitKey req) m))"
      and "json req = Inr parsed"
      and "roomName parsed = Some rn" and "participantName parsed = Some pn"
      and "validName rn" and "validName pn"
      and "LIVEKIT_API_KEY env = Some key" and "key \<noteq> []"
      and "LIVEKIT_API_SECRET env = Some secret" and "secret \<noteq> []"
      and "NEXT_PUBLIC_LIVEKIT_URL env = Some wsUrl"
      and "startsWith wsUrl ''ws://'' \<or> startsWith wsUrl ''wss://''"
  shows "fst (POST_token env toJwt now req m) =
           (case toJwt \<lparr>apiKey = key, apiSecret = secret, identity = pn, displayName = pn,
                         ttl = ''10m'', metadataRoomName = rn,
                         grant = \<lparr>room = rn, roomJoin = True, canPublish = True,
                                   canSubscribe = True, canPublishData = True\<rparr>\<rparr> of
              Inl error \<Rightarrow> token_catch error
            | Inr token \<Rightarrow>
                \<lparr>status = 200, body = TokenBody token wsUrl 600 rn pn,
                 headers =
                   [(''X-RateLimit-Limit'', toString TOKEN_REQUEST_LIMIT),
                    (''X-RateLimit-Remaining'',
                     toString (remaining (fst (checkTokenRateLimit now (getRateLimitKey req) m))))]\<rparr>)"
proof -
  have "rn \<noteq> []" "pn \<noteq> []" using assms(5,6) by (simp_all add: validName_def)
  moreover have "wsUrl \<noteq> []" using assms(12) by (auto simp: startsWith_def)
  ultimately show ?thesis
    using assms
    by (auto simp: POST_token_def Let_def split_beta split: sum.splits)
qed

lemma POST_token_invalid:
  assumes "allowed (fst (checkTokenRateLimit now (getRateLimitKey req) m))"
      and "json req = Inr parsed"
      and "\<not> (\<exists>rn pn. roomName parsed = Some rn \<and> participantName parsed = Some pn
                \<and> validName rn \<and> validName pn)"
  shows "status (fst (POST_token env toJwt now req m)) = 400
       \<and> (\<exists>msg. body (fst (POST_token env toJwt now req m)) = ErrorBody msg)"
  using assms
  by (auto simp: POST_token_def Let_def split_beta validName_def split: sum.splits option.splits)


text \<open>
  Claim C7. Take a token request that passes the rate limit and whose body parses,
  with the provider configuration present (key, secret and URL set and non-empty,
  the URL passing the handler's \<open>ws://\<close> or \<open>wss://\<close> test) and a credential
  library that returns a token. Then the answer is 200, carrying the token for the
  given room and participant, exactly when both \<open>roomName\<close> and \<open>participantName\<close>
  are present and match \<open>^[a-zA-Z0-9_-]+$\<close>; and it is 400 exactly when they do not.
  In particular \<open>abc-1\<close> with \<open>bob_2\<close> is answered 200 and \<open>abc 1\<close> with \<open>bob_2\<close> 400.
\<close>

theorem token_issued_iff_names_valid:
  assumes "allowed (fst (checkTokenRateLimit now (getRateLimitKey req) m))"
      and "json req = Inr parsed"
      and "LIVEKIT_API_KEY env = Some key" and "key \<noteq> []"
      and "LIVEKIT_API_SECRET env = Some secret" and "secret \<noteq> []"
      and "NEXT_PUBLIC_LIVEKIT_URL env = Some wsUrl"
      and "startsWith wsUrl ''ws://'' \<or> startsWith wsUrl ''wss://''"
      and "\<forall>at. \<exists>token. toJwt at = Inr token"
  shows "(status (fst (POST_token env toJwt now req m)) = 200)
           = (\<exists>rn pn. roomName parsed = Some rn \<and> participantName parsed = Some pn
                \<and> validName rn \<and> validName pn)
       \<and> (status (fst (POST_token env toJwt now req m)) = 400)
           = (\<not> (\<exists>rn pn. roomName parsed = Some rn \<and> participantName parsed = Some pn
                  \<and> validName rn \<and> validName pn))
       \<and> (\<forall>rn pn. roomName parsed = Some rn \<and> participantName parsed = Some pn
              \<and> validName rn \<and> validName pn \<longrightarrow>
            (\<exists>token. body (fst (POST_token env toJwt now req m))
                        = TokenBody token wsUrl 600 rn pn))"
proof (cases "\<exists>rn pn. roomName parsed = Some rn \<and> participantName parsed = Some pn
                \<and> validName rn \<and> validName pn")
  case True
  then obtain rn pn where f: "roomName parsed = Some rn" "participantName parsed = Some pn"
    and v: "validName rn" "validName pn" by blast
  let ?at = "\<lparr>apiKey = key, apiSecret = secret, identity = pn, displayName = pn,
              ttl = ''10m'', metadataRoomName = rn,
              grant = \<lparr>room = rn, roomJoin = True, canPublish = True,
                        canSubscribe = True, canPublishData = True\<rparr>\<rparr>"
  from assms(9) obtain token where t: "toJwt ?at = Inr token" by blast
  show ?thesis
    using True
    by (simp add: POST_token_valid_config
          [where toJwt=toJwt, OF assms(1,2) f v assms(3-8)] t f)
next
  case False
  from POST_token_invalid [where env=env and toJwt=toJwt, OF assms(1,2) False]
  show ?thesis using False by auto
qed

theorem token_issued_iff_names_valid_witness:
  "validName ''abc-1'' \<and> validName ''bob_2'' \<and> \<not> validName ''abc 1''
   \<and> status (fst (POST_token
        \<lparr>LIVEKIT_API_KEY = Some ''APIkey'', LIVEKIT_API_SECRET = Some ''secret'',
         NEXT_PUBLIC_LIVEKIT_URL = Some ''wss://example.livekit.cloud''\<rparr>
        (\<lambda>at. Inr (''jwt-for-'' @ identity at)) 0
        \<lparr>xForwardedFor = None, xRealIp = Some ''198.51.100.2'',
         json = Inr \<lparr>roomName = Some ''abc-1'', participantName = Some ''bob_2''\<rparr>\<rparr>
        Map.empty)) = 200
   \<and> status (fst (POST_token
        \<lparr>LIVEKIT_API_KEY = Some ''APIkey'', LIVEKIT_API_SECRET = Some ''secret'',
         NEXT_PUBLIC_LIVEKIT_URL = Some ''wss://example.livekit.cloud''\<rparr>
        (\<lambda>at. Inr (''jwt-for-'' @ identity at)) 0
        \<lparr>xForwardedFor = None, xRealIp = Some ''198.51.100.2'',
         json = Inr \<lparr>roomName = Some ''abc 1'', participantName = Some ''bob_2''\<rparr>\<rparr>
        Map.empty)) = 400"
proof -
  let ?env = "\<lparr>LIVEKIT_API_KEY = Some ''APIkey'', LIVEKIT_API_SECRET = Some ''secret'',
                NEXT_PUBLIC_LIVEKIT_URL = Some ''wss://example.livekit.cloud''\<rparr>"
  let ?sign = "\<lambda>at. Inr (''jwt-for-'' @ identity at) :: thrown + string"
  let ?good = "\<lparr>xForwardedFor = None, xRealIp = Some ''198.51.100.2'',
                 json = Inr \<lparr>roomName = Some ''abc-1'', participantName = Some ''bob_2''\<rparr>\<rparr>"
  let ?bad = "\<lparr>xForwardedFor = None, xRealIp = Some ''198.51.100.2'',
                json = Inr \<lparr>roomName = Some ''abc 1'', participantName = Some ''bob_2''\<rparr>\<rparr>"
  have names: "validName ''abc-1''" "validName ''bob_2''" "\<not> validName ''abc 1''"
    by (simp_all add: validName_def identChar_def)
  have a: "allowed (fst (checkTokenRateLimit 0 (getRateLimitKey ?good) Map.empty))"
          "allowed (fst (checkTokenRateLimit 0 (getRateLimitKey ?bad) Map.empty))"
    by (simp_all add: checkTokenRateLimit_def)
  have j: "json ?good = Inr \<lparr>roomName = Some ''abc-1'', participantName = Some ''bob_2''\<rparr>"
          "json ?bad = Inr \<lparr>roomName = Some ''abc 1'', participantName = Some ''bob_2''\<rparr>"
    by simp_all
  have e: "LIVEKIT_API_KEY ?env = Some ''APIkey''" "''APIkey'' \<noteq> []"
          "LIVEKIT_API_SECRET ?env = Some ''secret''" "''secret'' \<noteq> []"
          "NEXT_PUBLIC_LIVEKIT_URL ?env = Some ''wss://example.livekit.cloud''"
          "startsWith ''wss://example.livekit.cloud'' ''ws://''
           \<or> startsWith ''wss://example.livekit.cloud'' ''wss://''"
    by (simp_all add: startsWith_def)
  have s: "\<forall>at. \<exists>token. ?sign at = Inr token" by simp
  from token_issued_iff_names_valid [where toJwt="?sign", OF a(1) j(1) e s]
       token_issued_iff_names_valid [where toJwt="?sign", OF a(2) j(2) e s] names
  show ?thesis by simp
qed

section \<open>The client hook\<close>

lemma send_ok:
  assumes "fetchChat w retryCount audioDataUri = Fetched code data"
      and "200 \<le> code" and "code \<le> 299"
  shows "sendAudioToApi w audioDataUri retryCount st =
           (showReply w data
              (st\<lparr>isThinking := True, lastRequestTime := dateNow w (readings st),
                  effects := effects st @ [PostChat audioDataUri],
                  readings := Suc (readings st)\<rparr>))\<lparr>isThinking := False\<rparr>"
  using assms by (simp add: sendAudioToApi.simps [of w audioDataUri retryCount st] awaitResponse_def)

text \<open>
  Claim C9. Whenever the fetch of a dispatch is answered by an ok response carrying
  a non-empty transcription \<open>T\<close>, a non-empty reply text \<open>R\<close> and a non-empty reply
  audio, the transcript afterwards is the transcript before followed by exactly two
  messages: a user message with text \<open>T\<close>, then an assistant message with text \<open>R\<close>.
\<close>

theorem full_reply_appends_user_then_assistant:
  assumes "fetchChat w retryCount audioDataUri = Fetched code (ChatBody T R A)"
      and "200 \<le> code" and "code \<le> 299"
      and "T \<noteq> []" and "R \<noteq> []" and "A \<noteq> []"
  shows "messages (sendAudioToApi w audioDataUri retryCount st) =
           messages st @
           [\<lparr>msgId = uuidv4 w (Suc (readings st)), timestamp = dateNow w (Suc (readings st)),
             msgText = T, msgRole = user\<rparr>,
            \<lparr>msgId = uuidv4 w (Suc (Suc (readings st))),
             timestamp = dateNow w (Suc (Suc (readings st))),
             msgText = R, msgRole = assistant\<rparr>]"
  using assms(4-6)
  by (simp add: send_ok [OF assms(1-3)] showReply_def addMessage_def)

theorem full_reply_appends_user_then_assistant_witness:
  "map (\<lambda>msg. (msgRole msg, msgText msg))
     (messages (sendAudioToApi
        (sample_surroundings
           (served (scripted (Inr ''hello'') (Inr ''Hi!'')
                      (Inr ''data:audio/wav;base64,UklGRg==''))
              (\<lambda>n. 0) Map.empty))
        sample_uri 0 sample_client))
   = [(user, ''Earlier question''), (user, ''hello''), (assistant, ''Hi!'')]"
proof -
  let ?w = "sample_surroundings
              (served (scripted (Inr ''hello'') (Inr ''Hi!'')
                         (Inr ''data:audio/wav;base64,UklGRg==''))
                 (\<lambda>n. 0) Map.empty)"
  have f: "fetchChat ?w 0 sample_uri
             = Fetched 200 (ChatBody ''hello'' ''Hi!'' ''data:audio/wav;base64,UklGRg=='')"
    by (simp add: sample_surroundings_def served_def posted_def POST_chat_def
          getRateLimitKey_def checkRateLimit_def REQUEST_LIMIT_def startsWith_def
          sample_uri_def chat_stages_def scripted_def trim_def isWhiteSpace_def)
  have c: "(200::nat) \<le> 200" "(200::nat) \<le> 299" by simp_all
  have n: "''hello'' \<noteq> []" "''Hi!'' \<noteq> []" "''data:audio/wav;base64,UklGRg=='' \<noteq> []"
    by simp_all
  from full_reply_appends_user_then_assistant [OF f c n, of sample_client]
  show ?thesis by (simp add: sample_client_def)
qed

text \<open>
  Claim C10. Whenever the fetch of a dispatch is answered by an ok response whose
  \<open>aiResponse.audioDataUri\<close> is empty, the hook appends no assistant message (the
  assistant messages of the transcript are those it had before; the only message
  appended is the user message, when the transcription is non-empty), hands nothing
  to playback and reports no error: the request posted is the only effect.
\<close>

theorem empty_audio_reply_is_not_shown:
  assumes "fetchChat w retryCount audioDataUri = Fetched code (ChatBody T R [])"
      and "200 \<le> code" and "code \<le> 299"
  shows "messages (sendAudioToApi w audioDataUri retryCount st) =
           messages st @
           (if T = [] then []
            else [\<lparr>msgId = uuidv4 w (Suc (readings st)),
                   timestamp = dateNow w (Suc (readings st)),
                   msgText = T, msgRole = user\<rparr>])
       \<and> filter (\<lambda>msg. msgRole msg = assistant)
            (messages (sendAudioToApi w audioDataUri retryCount st))
           = filter (\<lambda>msg. msgRole msg = assistant) (messages st)
       \<and> effects (sendAudioToApi w audioDataUri retryCount st)
           = effects st @ [PostChat audioDataUri]"
  by (simp add: send_ok [OF assms(1-3)] showReply_def addMessage_def)

theorem empty_audio_reply_is_not_shown_witness:
  "messages (sendAudioToApi
      (sample_surroundings
         (served (scripted (Inr ''hello'') (Inr ''Hi there!'') (Inl (Error ''no media returned'')))
            (\<lambda>n. 0) Map.empty))
      sample_uri 0 sample_client)
     = messages sample_client
       @ [\<lparr>msgId = uuidv4 (sample_surroundings (\<lambda>n u. FetchThrew (ClientError [] []))) 1,
            timestamp = 1001, msgText = ''hello'', msgRole = user\<rparr>]
   \<and> effects (sendAudioToApi
      (sample_surroundings
         (served (scripted (Inr ''hello'') (Inr ''Hi there!'') (Inl (Error ''no media returned'')))
            (\<lambda>n. 0) Map.empty))
      sample_uri 0 sample_client)
     = [PostChat sample_uri]"
proof -
  let ?w = "sample_surroundings
              (served (scripted (Inr ''hello'') (Inr ''Hi there!'')
                         (Inl (Error ''no media returned'')))
                 (\<lambda>n. 0) Map.empty)"
  have f: "fetchChat ?w 0 sample_uri = Fetched 200 (ChatBody ''hello'' ''Hi there!'' [])"
    by (simp add: sample_surroundings_def served_def posted_def POST_chat_def
          getRateLimitKey_def checkRateLimit_def REQUEST_LIMIT_def startsWith_def
          sample_uri_def chat_stages_def scripted_def trim_def isWhiteSpace_def)
  have c: "(200::nat) \<le> 200" "(200::nat) \<le> 299" by simp_all
  from empty_audio_reply_is_not_shown [OF f c, of sample_client]
  show ?thesis by (simp add: sample_client_def sample_surroundings_def)
qed


lemma quota_body_is_not_recognised:
  assumes "body (fst (fst (POST_chat ai now req m))) = QuotaBody msg"
  shows "awaitResponse (Fetched (status (fst (fst (POST_chat ai now req m))))
                          (body (fst (fst (POST_chat ai now req m)))))
           = Inl (ClientError ''Error'' msg)"
proof -
  have chat_catch_body: "\<And>e. body (chat_catch e) \<noteq> QuotaBody msg"
    by (simp add: chat_catch_def split: thrown.splits)
  have stages:
    "\<And>uri rem res. fst (chat_stages ai uri rem) = Inr res \<Longrightarrow> body res = QuotaBody msg \<Longrightarrow>
       status res = 429
       \<and> (msg = ''AI service quota exceeded. Please try again in a few moments.''
          \<or> msg = ''AI service is busy. Please try again shortly.'')"
    by (auto simp: chat_stages_def split: sum.splits if_splits)
  have "status (fst (fst (POST_chat ai now req m))) = 429
        \<and> (msg = ''AI service quota exceeded. Please try again in a few moments.''
           \<or> msg = ''AI service is busy. Please try again shortly.'')"
    using assms chat_catch_body stages
    by (auto simp: POST_chat_def Let_def split_beta
             split: sum.splits option.splits if_splits prod.splits)
  then show ?thesis
    using assms by (auto simp: awaitResponse_def)
qed

lemma send_not_recognised:
  assumes "awaitResponse (fetchChat w retryCount audioDataUri) = Inl (ClientError ''Error'' msg)"
  shows "effects (sendAudioToApi w audioDataUri retryCount st)
           = effects st @ [PostChat audioDataUri, OnError (ClientError ''Error'' msg)]
       \<and> messages (sendAudioToApi w audioDataUri retryCount st)
           = messages st @
             [\<lparr>msgId = uuidv4 w (Suc (readings st)), timestamp = dateNow w (Suc (readings st)),
               msgText = CROSS_MARK @ '' Error: '' @ msg, msgRole = assistant\<rparr>]"
  using assms
  by (simp add: sendAudioToApi.simps [of w audioDataUri retryCount st] addMessage_def)

lemma retry_schedule_when_recognised:
  assumes "\<forall>n. awaitResponse (fetchChat w n audioDataUri) = Inl (ClientError ''RateLimitError'' msg)"
  shows "effects (sendAudioToApi w audioDataUri 0 st)
           = effects st @
             [PostChat audioDataUri, SetTimeout 3000,
              PostChat audioDataUri, SetTimeout 6000,
              PostChat audioDataUri, OnError (ClientError ''RateLimitError'' msg)]
       \<and> map msgText (drop (length (messages st))
            (messages (sendAudioToApi w audioDataUri 0 st)))
           = [HOURGLASS @ '' Rate limit reached. Retrying in 3 seconds... (1/2)'',
              HOURGLASS @ '' Rate limit reached. Retrying in 6 seconds... (2/2)'',
              WARNING_SIGN @ '' Too many requests! Please wait 30 seconds and try again.'']"
proof -
  have s: "string_of_nat 1 = ''1''" "string_of_nat 2 = ''2''" "string_of_nat 3 = ''3''"
          "string_of_nat 6 = ''6''" "string_of_nat (Suc 0) = ''1''"
          "string_of_nat (Suc (Suc 0)) = ''2''"
    by (simp_all add: string_of_nat.simps)
  have a: "\<And>n. awaitResponse (fetchChat w n audioDataUri) = Inl (ClientError ''RateLimitError'' msg)"
    using assms by simp
  show ?thesis
    by (simp add: sendAudioToApi.simps [of w audioDataUri 0]
          sendAudioToApi.simps [of w audioDataUri 1]
          sendAudioToApi.simps [of w audioDataUri 2]
          sendAudioToApi.simps [of w audioDataUri "Suc 0"]
          sendAudioToApi.simps [of w audioDataUri "Suc (Suc 0)"]
          a MAX_RETRIES_def RETRY_DELAY_def addMessage_def Let_def s)
qed

lemma quota_class_is_never_retried:
  assumes "fetchChat w retryCount audioDataUri =
             Fetched (status (fst (fst (POST_chat ai now req m))))
                     (body (fst (fst (POST_chat ai now req m))))"
      and "body (fst (fst (POST_chat ai now req m))) = QuotaBody msg"
  shows "effects (sendAudioToApi w audioDataUri retryCount st)
           = effects st @ [PostChat audioDataUri, OnError (ClientError ''Error'' msg)]"
  using send_not_recognised [of w retryCount audioDataUri msg st]
        quota_body_is_not_recognised [OF assms(2)] assms(1)
  by simp

text \<open>
  Claim C5 at a concrete run. The generation stage throws a quota error; the chat
  handler answers 429 with the quota-exceeded body; the hook, which looks for
  \<open>Quota exceeded\<close> or \<open>rate limit\<close> in the error text, does not recognise it: it
  sets no timer and posts no second request, and appends one error message.
\<close>

theorem quota_response_is_not_retried:
  "isQuotaError (Error ''[429 Too Many Requests] You exceeded your current quota'')
   \<and> fetchChat
        (sample_surroundings
           (served (scripted (Inr ''What time is it?'')
                      (Inl (Error ''[429 Too Many Requests] You exceeded your current quota''))
                      (Inl NotAnError))
              (\<lambda>n. 0) Map.empty))
        0 sample_uri
       = Fetched 429 (QuotaBody ''AI service is busy. Please try again shortly.'')
   \<and> effects (sendAudioToApi
        (sample_surroundings
           (served (scripted (Inr ''What time is it?'')
                      (Inl (Error ''[429 Too Many Requests] You exceeded your current quota''))
                      (Inl NotAnError))
              (\<lambda>n. 0) Map.empty))
        sample_uri 0 sample_client)
       = [PostChat sample_uri,
          OnError (ClientError ''Error'' ''AI service is busy. Please try again shortly.'')]
   \<and> map (\<lambda>msg. (msgRole msg, msgText msg))
        (messages (sendAudioToApi
          (sample_surroundings
             (served (scripted (Inr ''What time is it?'')
                        (Inl (Error ''[429 Too Many Requests] You exceeded your current quota''))
                        (Inl NotAnError))
                (\<lambda>n. 0) Map.empty))
          sample_uri 0 sample_client))
       = [(user, ''Earlier question''),
          (assistant,
           CROSS_MARK @ '' Error: AI service is busy. Please try again shortly.'')]"
proof -
  let ?ai = "scripted (Inr ''What time is it?'')
               (Inl (Error ''[429 Too Many Requests] You exceeded your current quota''))
               (Inl NotAnError)"
  let ?w = "sample_surroundings (served ?ai (\<lambda>n. 0) Map.empty)"
  have q: "isQuotaError (Error ''[429 Too Many Requests] You exceeded your current quota'')"
    by (simp add: isQuotaError_def)
  have f: "fetchChat ?w 0 sample_uri
             = Fetched 429 (QuotaBody ''AI service is busy. Please try again shortly.'')"
    by (simp add: sample_surroundings_def served_def posted_def POST_chat_def
          getRateLimitKey_def checkRateLimit_def REQUEST_LIMIT_def startsWith_def
          sample_uri_def chat_stages_def scripted_def trim_def isWhiteSpace_def isQuotaError_def)
  have a: "awaitResponse (fetchChat ?w 0 sample_uri)
             = Inl (ClientError ''Error'' ''AI service is busy. Please try again shortly.'')"
    by (simp add: f awaitResponse_def)
  from send_not_recognised [OF a, of sample_client] q f
  show ?thesis by (simp add: sample_client_def)
qed

end
